theory Spec2Isabelle
  imports Complex_Main "HOL-Library.Sublist"
begin

section \<open>Conventions of the embedding\<close>

text \<open>
  The Python sources compute with \<open>float\<close>. The embedding uses \<open>real\<close>: every
  property below is about comparisons, \<open>min\<close>, \<open>max\<close> and products with constants,
  and rounding is left out. Device kinds, dict keys and exception messages are ASCII
  texts (\<open>string\<close>); device kinds are the strings the code uses (\<open>mps\<close>, \<open>cuda\<close>,
  \<open>rocm\<close>, \<open>cpu\<close>). Prompts and responses are lists of Unicode code points. A Python exception is a
  value of \<open>py_error\<close>, and a function that can raise returns \<open>py_error + 'a\<close>.
  Calls to \<open>print\<close>, \<open>time.sleep\<close> and \<open>gc.collect\<close> have no effect on the results and
  are left out.
\<close>

datatype py_error =
    ZeroDivisionError
  | KeyError string
  | FileNotFoundError string
  | ImportError string
  | RuntimeError string
  | AttributeError string
  | OSError string

section \<open>device\_detection\_test.py: the data classes\<close>

text \<open>
  Field names are those of the source, except where two classes share one:
  \<open>ProcessInfo.cpu_percent\<close> is \<open>proc_cpu_percent\<close> here, \<open>ResourceAlert.unit\<close> is
  \<open>unit_name\<close> and \<open>AlertAggregator.last_alert_time\<close> is \<open>agg_last_alert_time\<close>.
  Method names lose their leading underscore.
\<close>

record ProcessInfo =
  name :: string
  memory_mb :: real
  proc_cpu_percent :: real
  is_gpu_intensive :: bool

record SystemInfo =
  platform :: string
  cpu_cores :: int
  total_memory_gb :: real
  available_memory_gb :: real
  cpu_percent :: real
  disk_free_gb :: real

record DeviceInfo =
  device_type :: string
  device_name :: string
  memory_gb :: real
  performance_tier :: string
  supported :: bool
  error_message :: "string option"

record ResourceAllocation =
  recommended_memory_gb :: real
  conservative_memory_gb :: real
  memory_fraction :: real
  batch_size :: int
  attention_heads :: int
  hidden_size :: int
  use_conservative :: bool
  safety_margin_gb :: real

text \<open>
  The state of a \<open>DeviceDetector\<close> after the first three steps of \<open>__init__\<close>:
  \<open>system_info\<close>, \<open>devices\<close> (a dict keyed by device kind) and \<open>other_processes\<close>.
\<close>

record DeviceDetector =
  system_info :: SystemInfo
  devices :: "string \<rightharpoonup> DeviceInfo"
  other_processes :: "ProcessInfo list"

section \<open>DeviceDetector.\_get\_system\_info\<close>

text \<open>
  The four reads of \<open>psutil\<close> are the environment: each one returns its value or raises.
  \<open>virtual_memory\<close> gives (total, available) in bytes, \<open>disk_usage\<close> the free bytes.
\<close>

record probe_env =
  sys_platform :: string
  virtual_memory :: "py_error + (nat \<times> nat)"
  cpu_percent_read :: "py_error + real"
  disk_usage :: "py_error + nat"
  cpu_count :: "py_error + int"

definition get_system_info :: "probe_env \<Rightarrow> py_error + SystemInfo" where
  "get_system_info env =
     (case virtual_memory env of
        Inl e \<Rightarrow> Inl e
      | Inr (mem_total, mem_available) \<Rightarrow>
     (case cpu_percent_read env of
        Inl e \<Rightarrow> Inl e
      | Inr cpu \<Rightarrow>
     (case disk_usage env of
        Inl e \<Rightarrow> Inl e
      | Inr disk_free \<Rightarrow>
     (case cpu_count env of
        Inl e \<Rightarrow> Inl e
      | Inr cores \<Rightarrow>
          Inr \<lparr> platform = sys_platform env,
                cpu_cores = cores,
                total_memory_gb = real mem_total / (1024 ^ 3),
                available_memory_gb = real mem_available / (1024 ^ 3),
                cpu_percent = cpu,
                disk_free_gb = real disk_free / (1024 ^ 3) \<rparr>))))"

section \<open>DeviceDetector.\_select\_best\_device\<close>

text \<open>
  The loop over \<open>priority_order\<close>. \<open>continue\<close> is the recursive call on the rest of the
  list, \<open>return\<close> is \<open>Inr\<close>; running off the end of the list reaches the final
  \<open>return 'cpu'\<close>. The division \<open>available_memory_gb / total_memory_gb\<close> raises when
  the total is zero.
\<close>

fun select_loop :: "DeviceDetector \<Rightarrow> string list \<Rightarrow> py_error + string" where
  "select_loop self [] = Inr ''cpu''"
| "select_loop self (dt # rest) =
     (case devices self dt of
        None \<Rightarrow> select_loop self rest
      | Some device \<Rightarrow>
          if \<not> supported device then select_loop self rest
          else if dt = ''mps'' then
            (if total_memory_gb (system_info self) = 0 then Inl ZeroDivisionError
             else
               let available_percent =
                     available_memory_gb (system_info self) / total_memory_gb (system_info self)
               in if available_percent < 0.25 then select_loop self rest
                  else if available_percent < 0.4 then Inr dt
                  else Inr dt)
          else if dt \<in> set [''cuda'', ''rocm''] then
            (if available_memory_gb (system_info self) < 6.0 then select_loop self rest
             else Inr dt)
          else if dt = ''cpu'' then Inr dt
          else select_loop self rest)"

text \<open>The negation of the loop's first test: the kind is in the catalogue and supported.\<close>

definition dev_supported :: "DeviceDetector \<Rightarrow> string \<Rightarrow> bool" where
  "dev_supported self kind = (case devices self kind of None \<Rightarrow> False | Some d \<Rightarrow> supported d)"

definition priority_order :: "string list" where
  "priority_order = [''mps'', ''cuda'', ''rocm'', ''cpu'']"

definition select_best_device :: "DeviceDetector \<Rightarrow> py_error + string" where
  "select_best_device self = select_loop self priority_order"

section \<open>DeviceDetector.\_calculate\_resource\_allocation\<close>

definition other_processes_memory_gb :: "ProcessInfo list \<Rightarrow> real" where
  "other_processes_memory_gb ps = sum_list (map memory_mb ps) / 1024"

text \<open>The device-specific base allocation (the \<open>if\<close>/\<open>elif\<close>/\<open>else\<close> on \<open>best_device\<close>).\<close>

definition base_allocation_gb :: "SystemInfo \<Rightarrow> string \<Rightarrow> py_error + real" where
  "base_allocation_gb si best_device =
     (if best_device = ''mps'' then
        (if total_memory_gb si = 0 then Inl ZeroDivisionError
         else
           let available_percent = available_memory_gb si / total_memory_gb si
           in if available_percent < 0.3 then Inr (min 2.0 (available_memory_gb si * 0.3))
              else if available_percent < 0.5 then Inr (min 4.0 (available_memory_gb si * 0.4))
              else Inr (min 6.0 (available_memory_gb si * 0.5)))
      else if best_device = ''cpu'' then Inr (min 8.0 (available_memory_gb si * 0.7))
      else Inr (min 12.0 (available_memory_gb si * 0.6)))"

text \<open>Python's \<open>any\<close> of a list of booleans.\<close>

definition any_py :: "bool list \<Rightarrow> bool" where
  "any_py bs = foldr (\<or>) bs False"

text \<open>The five entries of the list given to \<open>any\<close>, in the order of the source.\<close>

definition conservative_triggers ::
  "SystemInfo \<Rightarrow> ProcessInfo list \<Rightarrow> string \<Rightarrow> real \<Rightarrow> bool list" where
  "conservative_triggers si ps best_device final_allocation_gb =
     [ available_memory_gb si < 2.0,
       length (filter is_gpu_intensive ps) > 8,
       cpu_percent si > 95,
       final_allocation_gb < 2.0,
       best_device = ''mps'' \<and> available_memory_gb si < 3.0 ]"

text \<open>
  The function is written in four parts, in the order of the source: the base
  allocation above, the adjustment for other processes (\<open>min\<close> of three values), the
  clamp \<open>max(safe, 2.0)\<close> followed by \<open>min(final, 16.0)\<close>, and the record that is
  returned. The source also computes \<open>cpu_load_factor\<close>, which it never uses.
\<close>

definition safe_allocation_gb :: "SystemInfo \<Rightarrow> ProcessInfo list \<Rightarrow> real \<Rightarrow> real" where
  "safe_allocation_gb si ps base =
     min base
       (min (available_memory_gb si * 0.7)
            (total_memory_gb si - other_processes_memory_gb ps - total_memory_gb si * 0.2))"

definition final_allocation_gb :: "real \<Rightarrow> real" where
  "final_allocation_gb safe = min (max safe 2.0) 16.0"

text \<open>
  The rest of the function, from \<open>memory_fraction\<close> to the returned record; the
  division by the total has been checked by the caller below.
\<close>

definition allocation_record ::
  "SystemInfo \<Rightarrow> ProcessInfo list \<Rightarrow> string \<Rightarrow> real \<Rightarrow> ResourceAllocation" where
  "allocation_record si ps best_device final =
     (let fraction = min (final / total_memory_gb si) 0.8;
          conservative = any_py (conservative_triggers si ps best_device final)
      in \<lparr> recommended_memory_gb = final,
           conservative_memory_gb = (if conservative then min final 6.0 else final),
           memory_fraction = fraction,
           batch_size = (if conservative then 2 else 4),
           attention_heads = (if conservative then 24 else 32),
           hidden_size = (if conservative then 3072 else 4096),
           use_conservative = conservative,
           safety_margin_gb = total_memory_gb si * 0.2 \<rparr>)"

definition calculate_resource_allocation ::
  "DeviceDetector \<Rightarrow> string \<Rightarrow> py_error + ResourceAllocation" where
  "calculate_resource_allocation self best =
     (case devices self best of
        None \<Rightarrow> Inl (KeyError best)
      | Some best_device \<Rightarrow>
          (case base_allocation_gb (system_info self) best of
             Inl e \<Rightarrow> Inl e
           | Inr base \<Rightarrow>
               if total_memory_gb (system_info self) = 0 then Inl ZeroDivisionError
               else Inr (allocation_record (system_info self) (other_processes self) best
                           (final_allocation_gb
                              (safe_allocation_gb (system_info self) (other_processes self) base)))))"

section \<open>resource\_monitor.py: thresholds\<close>

text \<open>
  \<open>self.thresholds\<close> is a dict with four fixed keys, always present; it is a record
  here. The monitor reads \<open>best_device\<close> and \<open>resource_allocation\<close> of its optional
  device detector.
\<close>

record Thresholds =
  memory_warning :: real
  memory_critical :: real
  cpu_warning :: real
  cpu_critical :: real

record ResourceMonitor =
  device_detector :: "(string \<times> ResourceAllocation) option"
  thresholds :: Thresholds

definition initial_thresholds :: Thresholds where
  "initial_thresholds =
     \<lparr> memory_warning = 6.0, memory_critical = 3.0, cpu_warning = 80.0, cpu_critical = 90.0 \<rparr>"

definition adjust_thresholds_for_device :: "ResourceMonitor \<Rightarrow> ResourceMonitor" where
  "adjust_thresholds_for_device self =
     (case device_detector self of
        None \<Rightarrow> self
      | Some (device, allocation) \<Rightarrow>
          let t0 = thresholds self;
              t1 = (if device = ''mps'' then
                      t0\<lparr> memory_warning := 4.0, memory_critical := 2.0 \<rparr>
                    else if device = ''cpu'' then
                      t0\<lparr> memory_warning := 8.0, memory_critical := 4.0 \<rparr>
                    else
                      t0\<lparr> memory_warning := 6.0, memory_critical := 3.0 \<rparr>);
              t2 = (if use_conservative allocation then
                      t1\<lparr> memory_warning := memory_warning t1 * 1.2,
                          memory_critical := memory_critical t1 * 1.2 \<rparr>
                    else t1)
          in self\<lparr> thresholds := t2 \<rparr>)"

section \<open>resource\_monitor.py: the alert cooldown of \_monitor\_loop\<close>

datatype AlertLevel = INFO | WARNING | CRITICAL | EMERGENCY

datatype ResourceType = MEMORY | CPU | GPU | DISK | NETWORK

fun level_value :: "AlertLevel \<Rightarrow> string" where
  "level_value INFO = ''info''"
| "level_value WARNING = ''warning''"
| "level_value CRITICAL = ''critical''"
| "level_value EMERGENCY = ''emergency''"

fun resource_value :: "ResourceType \<Rightarrow> string" where
  "resource_value MEMORY = ''memory''"
| "resource_value CPU = ''cpu''"
| "resource_value GPU = ''gpu''"
| "resource_value DISK = ''disk''"
| "resource_value NETWORK = ''network''"

record ResourceAlert =
  level :: AlertLevel
  resource_type :: ResourceType
  message :: string
  current_value :: real
  threshold :: real
  unit_name :: string
  recommendation :: string
  timestamp :: real
  alert_id :: string

definition alert_key :: "ResourceAlert \<Rightarrow> string" where
  "alert_key alert = resource_value (resource_type alert) @ ''_'' @ level_value (level alert)"

text \<open>
  The state the loop works on: \<open>self.alert_history\<close>, the local dict
  \<open>last_alert_time\<close>, and a log of the callback calls (callback index, alert).
  An exception of a callback is caught by the loop, so the call is all that is recorded.
  \<open>emissions\<close> is a log added by the embedding: one entry (alert, \<open>current_time\<close>) each
  time the body of the \<open>if\<close> runs.
\<close>

record loop_state =
  alert_history :: "ResourceAlert list"
  last_alert_time :: "string \<rightharpoonup> real"
  delivered :: "(nat \<times> ResourceAlert) list"
  emissions :: "(ResourceAlert \<times> real) list"

text \<open>The test of the \<open>if\<close> in the loop body: key unseen, or more than 30.0 seconds.\<close>

definition cooldown_over :: "(string \<rightharpoonup> real) \<Rightarrow> string \<Rightarrow> real \<Rightarrow> bool" where
  "cooldown_over seen key current_time =
     (case seen key of None \<Rightarrow> True | Some t \<Rightarrow> current_time - t > 30.0)"

text \<open>
  One pass of the body of \<open>for alert in alerts\<close>, with the value \<open>time.time()\<close> returned
  for this alert and the number of registered callbacks.
\<close>

definition process_alert :: "nat \<Rightarrow> loop_state \<Rightarrow> ResourceAlert \<times> real \<Rightarrow> loop_state" where
  "process_alert n_callbacks st ev =
     (let alert = fst ev; current_time = snd ev; key = alert_key alert
      in if cooldown_over (last_alert_time st) key current_time then
           st\<lparr> alert_history := alert_history st @ [alert],
               last_alert_time := (last_alert_time st)(key \<mapsto> current_time),
               delivered := delivered st @ map (\<lambda>i. (i, alert)) [0..<n_callbacks],
               emissions := emissions st @ [(alert, current_time)] \<rparr>
         else st)"

text \<open>
  The loop over all alerts of all ticks, in order, from the state at the start of
  \<open>_monitor_loop\<close> (empty \<open>last_alert_time\<close>).
\<close>

definition monitor_loop ::
  "nat \<Rightarrow> ResourceAlert list \<Rightarrow> (ResourceAlert \<times> real) list \<Rightarrow> loop_state" where
  "monitor_loop n_callbacks history evs =
     foldl (process_alert n_callbacks)
       \<lparr> alert_history = history, last_alert_time = Map.empty, delivered = [],
         emissions = [] \<rparr> evs"

text \<open>What the callbacks receive for a list of emissions: each alert, once per callback.\<close>

definition deliveries :: "nat \<Rightarrow> (ResourceAlert \<times> real) list \<Rightarrow> (nat \<times> ResourceAlert) list" where
  "deliveries n_callbacks es = concat (map (\<lambda>e. map (\<lambda>i. (i, fst e)) [0..<n_callbacks]) es)"

text \<open>
  The invariant of the loop, for the proofs: \<open>last_alert_time\<close> holds, for each key
  that was emitted, the time of an emission of that key that no other emission of the
  key exceeds; history and deliveries are those of the emissions.
\<close>

definition loop_invariant :: "nat \<Rightarrow> ResourceAlert list \<Rightarrow> loop_state \<Rightarrow> bool" where
  "loop_invariant n_callbacks history st \<longleftrightarrow>
     (\<forall>e \<in> set (emissions st).
        \<exists>t0. last_alert_time st (alert_key (fst e)) = Some t0 \<and> snd e \<le> t0)
     \<and> (\<forall>k t0. last_alert_time st k = Some t0 \<longrightarrow>
           (\<exists>e \<in> set (emissions st). alert_key (fst e) = k \<and> snd e = t0))
     \<and> alert_history st = history @ map fst (emissions st)
     \<and> delivered st = deliveries n_callbacks (emissions st)"

section \<open>optimized\_resource\_server.py: AlertAggregator.should\_show\_alert\<close>

record AlertAggregator =
  alert_counts :: "string \<rightharpoonup> nat"
  agg_last_alert_time :: "string \<rightharpoonup> real"
  alert_cooldown :: real
  summary_interval :: real
  last_summary_time :: real

definition new_aggregator :: "real \<Rightarrow> AlertAggregator" where
  "new_aggregator now =
     \<lparr> alert_counts = Map.empty, agg_last_alert_time = Map.empty,
       alert_cooldown = 30.0, summary_interval = 60.0, last_summary_time = now \<rparr>"

definition should_show_alert ::
  "AlertAggregator \<Rightarrow> string \<Rightarrow> real \<Rightarrow> bool \<times> AlertAggregator" where
  "should_show_alert self key current_time =
     (case agg_last_alert_time self key of
        None \<Rightarrow>
          (True, self\<lparr> agg_last_alert_time := (agg_last_alert_time self)(key \<mapsto> current_time) \<rparr>)
      | Some t \<Rightarrow>
          if current_time - t > alert_cooldown self then
            (True, self\<lparr> agg_last_alert_time := (agg_last_alert_time self)(key \<mapsto> current_time) \<rparr>)
          else (False, self))"

section \<open>optimized\_resource\_server.py: OptimizedLlamaModel.load\_model\<close>

text \<open>
  The fields of the model object that \<open>load_model\<close> reads and writes. \<open>load_calls\<close>
  is a log added by the embedding: one entry (loader, device at the call) for each call
  of \<open>_load_gguf_model\<close> or \<open>_load_pytorch_model\<close>.
\<close>

record ModelState =
  device :: string
  is_loaded :: bool
  model_type :: "string option"
  max_memory_gb :: real
  use_conservative_settings :: bool
  load_calls :: "(string \<times> string) list"

text \<open>
  The environment of one call: the model path as text and whether it exists, what
  \<open>detect_model_type\<close> answers, \<open>LLAMA_CPP_AVAILABLE\<close>, whether the PyTorch fallback
  directory exists, the outcome of each loader on a device (\<open>None\<close>: it returned,
  \<open>Some e\<close>: it raised \<open>e\<close>), the text \<open>str(e)\<close> of an exception, and the detector's
  system information and allocation.
\<close>

record load_env =
  model_path :: string
  model_path_exists :: bool
  detected_model_type :: string
  llama_cpp_available :: bool
  pytorch_path_exists :: bool
  load_gguf_model :: "string \<Rightarrow> py_error option"
  load_pytorch_model :: "string \<Rightarrow> py_error option"
  exception_text :: "py_error \<Rightarrow> string"
  det_system_info :: SystemInfo
  det_allocation :: ResourceAllocation

definition call_load_gguf :: "load_env \<Rightarrow> ModelState \<Rightarrow> ModelState \<times> py_error option" where
  "call_load_gguf env st =
     (st\<lparr> load_calls := load_calls st @ [(''gguf'', device st)] \<rparr>,
      load_gguf_model env (device st))"

definition call_load_pytorch :: "load_env \<Rightarrow> ModelState \<Rightarrow> ModelState \<times> py_error option" where
  "call_load_pytorch env st =
     (st\<lparr> load_calls := load_calls st @ [(''pytorch'', device st)] \<rparr>,
      load_pytorch_model env (device st))"

text \<open>The body of the outer \<open>try\<close>, up to and excluding \<open>self.is_loaded = True\<close>.\<close>

definition first_load :: "load_env \<Rightarrow> ModelState \<Rightarrow> ModelState \<times> py_error option" where
  "first_load env st =
     (if model_type st = Some ''gguf'' then
        (if llama_cpp_available env then call_load_gguf env st
         else if pytorch_path_exists env then
           (case call_load_pytorch env st of
              (st', None) \<Rightarrow> (st'\<lparr> model_type := Some ''pytorch'' \<rparr>, None)
            | (st', Some e) \<Rightarrow> (st', Some e))
         else
           (st, Some (ImportError ''llama-cpp-python not available and no PyTorch fallback found'')))
      else call_load_pytorch env st)"

text \<open>
  \<open>load_model\<close> returns the new state of the object and the exception that leaves the
  function, if any.
\<close>

definition load_model :: "load_env \<Rightarrow> ModelState \<Rightarrow> ModelState \<times> py_error option" where
  "load_model env st =
     (if is_loaded st then (st, None)
      else if \<not> model_path_exists env
        then (st, Some (FileNotFoundError (''Model not found: '' @ model_path env)))
      else
        let st1 = st\<lparr> model_type := Some (detected_model_type env),
                       max_memory_gb := recommended_memory_gb (det_allocation env),
                       use_conservative_settings := use_conservative (det_allocation env) \<rparr>
        in case first_load env st1 of
             (st2, None) \<Rightarrow> (st2\<lparr> is_loaded := True \<rparr>, None)
           | (st2, Some e) \<Rightarrow>
               if model_type st2 = Some ''pytorch'' \<and> device st2 = ''mps'' then
                 let st3 = st2\<lparr> device := ''cpu'',
                                max_memory_gb :=
                                  min 8.0 (available_memory_gb (det_system_info env) * 0.6),
                                use_conservative_settings := True \<rparr>
                 in case call_load_pytorch env st3 of
                      (st4, None) \<Rightarrow> (st4\<lparr> is_loaded := True \<rparr>, None)
                    | (st4, Some cpu_error) \<Rightarrow>
                        (st4, Some (RuntimeError
                           (''Model loading failed on both MPS and CPU: '' @ exception_text env e)))
               else (st2, Some e))"

section \<open>optimized\_resource\_server.py: strings\<close>

text \<open>
  A prompt or a response is a Python \<open>str\<close>: a list of Unicode code points (the
  integers \<open>ord\<close> gives; \<open>ustr\<close> turns an ASCII text into such a list). The
  methods used on them are \<open>strip\<close>, \<open>split\<close> at the newline, \<open>startswith\<close>,
  \<open>replace\<close> by the empty string, \<open>in\<close> and \<open>lower\<close>. \<open>strip\<close> removes the code
  points for which \<open>str.isspace\<close> holds. \<open>lower\<close> applies the case mapping of the Unicode
  database, which is not part of the repository: it is a parameter of the functions
  that use it.
\<close>

type_synonym ustring = "int list"

definition ustr :: "string \<Rightarrow> ustring" where
  "ustr s = map of_char s"

definition is_space :: "int \<Rightarrow> bool" where
  "is_space c \<longleftrightarrow>
     (0x09 \<le> c \<and> c \<le> 0x0D) \<or> (0x1C \<le> c \<and> c \<le> 0x20) \<or> c = 0x85 \<or> c = 0xA0
     \<or> c = 0x1680 \<or> (0x2000 \<le> c \<and> c \<le> 0x200A) \<or> c = 0x2028 \<or> c = 0x2029
     \<or> c = 0x202F \<or> c = 0x205F \<or> c = 0x3000"

definition strip :: "ustring \<Rightarrow> ustring" where
  "strip s = rev (dropWhile is_space (rev (dropWhile is_space s)))"

fun split_on :: "int \<Rightarrow> ustring \<Rightarrow> ustring list" where
  "split_on c [] = [[]]"
| "split_on c (x # xs) =
     (if x = c then [] # split_on c xs
      else (case split_on c xs of
              [] \<Rightarrow> [[x]]
            | l # ls \<Rightarrow> (x # l) # ls))"

definition startswith :: "ustring \<Rightarrow> ustring \<Rightarrow> bool" where
  "startswith s p \<longleftrightarrow> take (length p) s = p"

fun contains :: "ustring \<Rightarrow> ustring \<Rightarrow> bool" where
  "contains [] sub = (sub = [])"
| "contains (x # xs) sub = (startswith (x # xs) sub \<or> contains xs sub)"

text \<open>Removing every occurrence of a non-empty \<open>old\<close>, left to right.\<close>

function remove_all :: "ustring \<Rightarrow> ustring \<Rightarrow> ustring" where
  "remove_all old [] = []"
| "remove_all old (x # xs) =
     (if old \<noteq> [] \<and> startswith (x # xs) old then remove_all old (drop (length old) (x # xs))
      else x # remove_all old xs)"
  by pat_completeness auto
termination
  by (relation "measure (\<lambda>(old, s). length s)") auto

section \<open>OptimizedLlamaModel.\_validate\_response\<close>

definition problematic_responses :: "ustring list" where
  "problematic_responses =
     [ [],
       ustr ''I am [Your Name]'',
       ustr ''I will be happy to help you'',
       ustr (''Whether it'' @ [CHR 0x27] @ ''s a specific topic'') ]"

definition validate_response :: "ustring \<Rightarrow> bool" where
  "validate_response response =
     (if response = [] \<or> length (strip response) < 1 then False
      else
        let response_stripped = strip response
        in if response_stripped \<in> set problematic_responses then False
           else if response_stripped \<in> set [ustr ''<|eot_id|>'', ustr ''<|end_of_text|>'']
             then False
           else if length response_stripped \<ge> 1 then True
           else True)"

section \<open>OptimizedLlamaModel.\_generate\_fallback\_response\<close>

definition greeting_reply :: ustring where
  "greeting_reply =
     ustr (''Hello! I'' @ [CHR 0x27] @ ''m here to help you. How can I assist you today?'')"

definition clarifying_reply :: ustring where
  "clarifying_reply =
     ustr ''I understand your question. Let me help you with that. Could you please provide more details?''"

definition generic_reply :: ustring where
  "generic_reply =
     ustr (''I see what you'' @ [CHR 0x27] @ ''re asking about. Let me provide you with a helpful response. What specific information are you looking for?'')"

definition no_user_reply :: ustring where
  "no_user_reply =
     ustr (''I'' @ [CHR 0x27] @ ''m here to help! Please let me know what you'' @ [CHR 0x27]
       @ ''d like assistance with.'')"

definition user_messages :: "ustring \<Rightarrow> ustring list" where
  "user_messages prompt =
     filter (\<lambda>line. startswith (strip line) (ustr ''User:'')) (split_on 0x0A prompt)"

text \<open>The first argument is \<open>str.lower\<close>.\<close>

definition generate_fallback_response :: "(ustring \<Rightarrow> ustring) \<Rightarrow> ustring \<Rightarrow> ustring" where
  "generate_fallback_response lower prompt =
     (if user_messages prompt \<noteq> [] then
        let last_user_message = strip (remove_all (ustr ''User:'') (last (user_messages prompt)))
        in if contains (lower last_user_message) (ustr ''hello'')
              \<or> contains (lower last_user_message) (ustr ''hi'')
           then greeting_reply
           else if contains last_user_message (ustr ''?'') then clarifying_reply
           else generic_reply
      else no_user_reply)"

section \<open>OptimizedLlamaModel.generate\_non\_stream\<close>

text \<open>
  One attempt calls the inference runtime (lines 1053 to 1126 of the source: the model
  call, decoding and \<open>strip\<close>). Its result at the validation is the pair
  \<open>(response, tokens_generated)\<close>, or an exception.
\<close>

datatype attempt_outcome = Raised py_error | Generated ustring int

text \<open>
  The environment of one call of \<open>generate_non_stream\<close>: the outcome of \<open>load_model\<close>
  when the model is not loaded, the outcome of each attempt (by attempt number,
  temperature and token limit), \<open>len(self.tokenizer.encode(text))\<close>,
  \<open>self.get_memory_info()\<close>, \<open>str.lower\<close>, and the time elapsed at the return.
\<close>

record 'm gen_env =
  load_model_result :: "py_error option"
  attempt_result :: "nat \<Rightarrow> real \<Rightarrow> real \<Rightarrow> attempt_outcome"
  tokenizer_encode_len :: "ustring \<Rightarrow> py_error + nat"
  get_memory_info :: "py_error + 'm"
  str_lower :: "ustring \<Rightarrow> ustring"
  elapsed :: real

record 'm gen_result =
  response :: ustring
  generation_time :: real
  tokens_generated :: int
  tokens_per_second :: real
  memory_usage :: 'm
  attempts :: nat
  fallback :: "bool option"

text \<open>The parameters of attempt \<open>attempt\<close>: widened from the second attempt on.\<close>

definition current_temperature :: "real \<Rightarrow> nat \<Rightarrow> real" where
  "current_temperature temperature attempt =
     (if attempt > 0 then min (temperature * (1 + real attempt * 0.2)) 1.5 else temperature)"

definition current_max_tokens :: "real \<Rightarrow> nat \<Rightarrow> real" where
  "current_max_tokens max_tokens attempt =
     (if attempt > 0 then min (max_tokens * (1 + real attempt * 0.3)) 200 else max_tokens)"

text \<open>
  The loop \<open>for attempt in range(max_attempts)\<close>. An exception inside the \<open>try\<close> reaches
  the handler: \<open>continue\<close> before the last attempt, \<open>raise e\<close> at the last one. A loop
  that ended without \<open>return\<close> would make the function return \<open>None\<close>. The first
  component of the result is a log added by the embedding: one entry (attempt,
  temperature, token limit) for each call of the inference runtime.
\<close>

fun gen_attempts ::
  "'m gen_env \<Rightarrow> ustring \<Rightarrow> real \<Rightarrow> real \<Rightarrow> nat \<Rightarrow> (nat \<times> real \<times> real) list \<Rightarrow> nat list
     \<Rightarrow> (nat \<times> real \<times> real) list \<times> (py_error + 'm gen_result option)"
where
  "gen_attempts env prompt max_tokens temperature max_attempts calls [] = (calls, Inr None)"
| "gen_attempts env prompt max_tokens temperature max_attempts calls (attempt # rest) =
     (let calls' = calls @ [(attempt, current_temperature temperature attempt,
                             current_max_tokens max_tokens attempt)];
          handler = (\<lambda>e. if attempt < max_attempts - 1
                          then gen_attempts env prompt max_tokens temperature max_attempts
                                 calls' rest
                          else (calls', Inl e))
      in case attempt_result env attempt (current_temperature temperature attempt)
                (current_max_tokens max_tokens attempt) of
           Raised e \<Rightarrow> handler e
         | Generated resp tokens \<Rightarrow>
             if validate_response resp then
               (case get_memory_info env of
                  Inl e \<Rightarrow> handler e
                | Inr m \<Rightarrow>
                    (calls',
                     Inr (Some \<lparr> response = resp,
                                 generation_time = elapsed env,
                                 tokens_generated = tokens,
                                 tokens_per_second =
                                   (if elapsed env > 0 then real_of_int tokens / elapsed env else 0),
                                 memory_usage = m,
                                 attempts = attempt + 1,
                                 fallback = None \<rparr>)))
             else if attempt < max_attempts - 1
               then gen_attempts env prompt max_tokens temperature max_attempts calls' rest
             else
               (let fallback_response = generate_fallback_response (str_lower env) prompt
                in case tokenizer_encode_len env fallback_response of
                     Inl e \<Rightarrow> handler e
                   | Inr n \<Rightarrow>
                       (case get_memory_info env of
                          Inl e \<Rightarrow> handler e
                        | Inr m \<Rightarrow>
                            (calls',
                             Inr (Some \<lparr> response = fallback_response,
                                         generation_time = elapsed env,
                                         tokens_generated = int n,
                                         tokens_per_second = 0,
                                         memory_usage = m,
                                         attempts = max_attempts,
                                         fallback = Some True \<rparr>)))))"

definition generate_non_stream ::
  "'m gen_env \<Rightarrow> bool \<Rightarrow> ustring \<Rightarrow> real \<Rightarrow> real
     \<Rightarrow> (nat \<times> real \<times> real) list \<times> (py_error + 'm gen_result option)" where
  "generate_non_stream env loaded prompt max_tokens temperature =
     (if \<not> loaded then
        (case load_model_result env of
           Some e \<Rightarrow> ([], Inl e)
         | None \<Rightarrow> gen_attempts env prompt max_tokens temperature 3 [] [0..<3])
      else gen_attempts env prompt max_tokens temperature 3 [] [0..<3])"

text \<open>
  An attempt that does not end the call with a valid response: the runtime raised, or the
  validator rejected the response.
\<close>

definition attempt_rejected :: "'m gen_env \<Rightarrow> real \<Rightarrow> real \<Rightarrow> nat \<Rightarrow> bool" where
  "attempt_rejected env max_tokens temperature attempt =
     (case attempt_result env attempt (current_temperature temperature attempt)
             (current_max_tokens max_tokens attempt) of
        Raised e \<Rightarrow> True
      | Generated resp tokens \<Rightarrow> \<not> validate_response resp)"

text \<open>The entry of the call log for an attempt.\<close>

definition attempt_call :: "real \<Rightarrow> real \<Rightarrow> nat \<Rightarrow> nat \<times> real \<times> real" where
  "attempt_call max_tokens temperature attempt =
     (attempt, current_temperature temperature attempt, current_max_tokens max_tokens attempt)"

section \<open>Concrete states used below\<close>

definition device_info :: "string \<Rightarrow> bool \<Rightarrow> DeviceInfo" where
  "device_info kind ok =
     \<lparr> device_type = kind, device_name = kind, memory_gb = (if ok then 12 else 0),
       performance_tier = (if ok then ''Standard'' else ''Unsupported''),
       supported = ok, error_message = (if ok then None else Some ''not available'') \<rparr>"

definition system_of :: "real \<Rightarrow> real \<Rightarrow> real \<Rightarrow> SystemInfo" where
  "system_of tot avail cpu =
     \<lparr> platform = ''darwin'', cpu_cores = 8, total_memory_gb = tot,
       available_memory_gb = avail, cpu_percent = cpu, disk_free_gb = 100 \<rparr>"

definition catalogue :: "bool \<Rightarrow> bool \<Rightarrow> bool \<Rightarrow> string \<rightharpoonup> DeviceInfo" where
  "catalogue mps cuda rocm =
     [''mps'' \<mapsto> device_info ''mps'' mps, ''cuda'' \<mapsto> device_info ''cuda'' cuda,
      ''rocm'' \<mapsto> device_info ''rocm'' rocm, ''cpu'' \<mapsto> device_info ''cpu'' True]"

text \<open>Total 16 GB, 3 GB available, cpu at 10 percent, mps supported, cuda and rocm not,
  no other process.\<close>

definition detector_16_3 :: DeviceDetector where
  "detector_16_3 =
     \<lparr> system_info = system_of 16 3 10, devices = catalogue True False False,
       other_processes = [] \<rparr>"

text \<open>Total 16 GB, 8 GB available (fraction 0.5), mps and cuda supported.\<close>

definition detector_16_8 :: DeviceDetector where
  "detector_16_8 =
     \<lparr> system_info = system_of 16 8 10, devices = catalogue True True False,
       other_processes = [] \<rparr>"

text \<open>Total 100 GB, 10 GB available (fraction 0.1), mps and cuda supported.\<close>

definition detector_100_10 :: DeviceDetector where
  "detector_100_10 =
     \<lparr> system_info = system_of 100 10 10, devices = catalogue True True False,
       other_processes = [] \<rparr>"

text \<open>Total 8 GB, 2.5 GB available, mps supported: mps is selected below 3 GB.\<close>

definition detector_8_mps :: DeviceDetector where
  "detector_8_mps =
     \<lparr> system_info = system_of 8 2.5 10, devices = catalogue True False False,
       other_processes = [] \<rparr>"

definition probe_ok :: probe_env where
  "probe_ok =
     \<lparr> sys_platform = ''linux'', virtual_memory = Inr (2 * 1024 ^ 3, 1024 ^ 3),
       cpu_percent_read = Inr 10, disk_usage = Inr (4 * 1024 ^ 3), cpu_count = Inr 8 \<rparr>"

definition probe_memory_fails :: probe_env where
  "probe_memory_fails = probe_ok\<lparr> virtual_memory := Inl (OSError ''virtual_memory'') \<rparr>"

definition allocation_example :: "bool \<Rightarrow> ResourceAllocation" where
  "allocation_example conservative =
     \<lparr> recommended_memory_gb = 4, conservative_memory_gb = 4, memory_fraction = 0.25,
       batch_size = (if conservative then 2 else 4),
       attention_heads = (if conservative then 24 else 32),
       hidden_size = (if conservative then 3072 else 4096),
       use_conservative = conservative, safety_margin_gb = 3.2 \<rparr>"

definition monitor_example :: "string \<Rightarrow> bool \<Rightarrow> ResourceMonitor" where
  "monitor_example kind conservative =
     \<lparr> device_detector = Some (kind, allocation_example conservative),
       thresholds = initial_thresholds \<rparr>"

definition memory_critical_alert :: "real \<Rightarrow> ResourceAlert" where
  "memory_critical_alert t =
     \<lparr> level = CRITICAL, resource_type = MEMORY, message = ''CRITICAL: low memory'',
       current_value = 1, threshold = 3, unit_name = ''GB'',
       recommendation = ''Close applications immediately or restart system'',
       timestamp = t, alert_id = ''memory'' \<rparr>"

text \<open>An example of \<open>exception_text\<close>: the message an exception was raised with.\<close>

fun error_message_of :: "py_error \<Rightarrow> string" where
  "error_message_of ZeroDivisionError = ''division by zero''"
| "error_message_of (KeyError m) = m"
| "error_message_of (FileNotFoundError m) = m"
| "error_message_of (ImportError m) = m"
| "error_message_of (RuntimeError m) = m"
| "error_message_of (AttributeError m) = m"
| "error_message_of (OSError m) = m"

definition model_state_mps :: ModelState where
  "model_state_mps =
     \<lparr> device = ''mps'', is_loaded = False, model_type = None, max_memory_gb = 4,
       use_conservative_settings = False, load_calls = [] \<rparr>"

text \<open>A full-precision model whose load fails on mps and succeeds on cpu (or fails on
  both), and a packed model whose load fails on mps.\<close>

definition load_env_pytorch :: "bool \<Rightarrow> load_env" where
  "load_env_pytorch cpu_ok =
     \<lparr> model_path = ''llama-3.2-3b-instruct'',
       model_path_exists = True, detected_model_type = ''pytorch'',
       llama_cpp_available = True, pytorch_path_exists = True,
       load_gguf_model = (\<lambda>d. None),
       load_pytorch_model =
         (\<lambda>d. if d = ''mps'' then Some (RuntimeError ''MPS backend out of memory'')
              else if cpu_ok then None else Some (RuntimeError ''out of memory'')),
       exception_text = error_message_of,
       det_system_info = system_of 16 8 10,
       det_allocation = allocation_example False \<rparr>"

definition load_env_gguf :: load_env where
  "load_env_gguf =
     \<lparr> model_path = ''llama-3.2-3b-quantized-q4km'',
       model_path_exists = True, detected_model_type = ''gguf'',
       llama_cpp_available = True, pytorch_path_exists = True,
       load_gguf_model = (\<lambda>d. Some (RuntimeError ''failed to load model from file'')),
       load_pytorch_model = (\<lambda>d. None),
       exception_text = error_message_of,
       det_system_info = system_of 16 8 10,
       det_allocation = allocation_example False \<rparr>"

text \<open>\<open>str.lower\<close> on ASCII text.\<close>

definition ascii_lower :: "ustring \<Rightarrow> ustring" where
  "ascii_lower s = map (\<lambda>c. if 65 \<le> c \<and> c \<le> 90 then c + 32 else c) s"

definition chat_prompt :: ustring where
  "chat_prompt = ustr (''User: what is 2+2?'' @ [CHR 0x0A] @ ''Assistant: '')"

text \<open>Every attempt raises.\<close>

definition gen_env_raising :: "unit gen_env" where
  "gen_env_raising =
     \<lparr> load_model_result = None,
       attempt_result = (\<lambda>k t m. Raised (RuntimeError ''generation failed'')),
       tokenizer_encode_len = (\<lambda>s. Inr (length s)),
       get_memory_info = Inr (),
       str_lower = ascii_lower,
       elapsed = 2 \<rparr>"

text \<open>Every attempt produces the empty response; the tokenizer counts tokens.\<close>

definition gen_env_rejecting :: "unit gen_env" where
  "gen_env_rejecting =
     \<lparr> load_model_result = None,
       attempt_result = (\<lambda>k t m. Generated [] 0),
       tokenizer_encode_len = (\<lambda>s. Inr (length s)),
       get_memory_info = Inr (),
       str_lower = ascii_lower,
       elapsed = 2 \<rparr>"

text \<open>
  Every attempt produces the empty response, on a packed (gguf) model: \<open>self.tokenizer\<close>
  is the runtime handle, which has no \<open>encode\<close>.
\<close>

definition gen_env_rejecting_gguf :: "unit gen_env" where
  "gen_env_rejecting_gguf =
     gen_env_rejecting\<lparr> tokenizer_encode_len := (\<lambda>s. Inl (AttributeError ''encode'')) \<rparr>"

section \<open>Properties of the allocation\<close>

lemma final_allocation_gb_bounds:
  "2 \<le> final_allocation_gb s" "final_allocation_gb s \<le> 16"
  by (simp_all add: final_allocation_gb_def)

lemma allocation_record_simps:
  "recommended_memory_gb (allocation_record si ps b f) = f"
  "memory_fraction (allocation_record si ps b f) = min (f / total_memory_gb si) 0.8"
  "use_conservative (allocation_record si ps b f) = any_py (conservative_triggers si ps b f)"
  "batch_size (allocation_record si ps b f)
     = (if any_py (conservative_triggers si ps b f) then 2 else 4)"
  by (simp_all add: allocation_record_def Let_def)

lemma calculate_resource_allocation_Inr:
  assumes "calculate_resource_allocation self best = Inr a"
  shows "\<exists>d base. devices self best = Some d \<and>
    base_allocation_gb (system_info self) best = Inr base \<and>
    total_memory_gb (system_info self) \<noteq> 0 \<and>
    a = allocation_record (system_info self) (other_processes self) best
           (final_allocation_gb (safe_allocation_gb (system_info self) (other_processes self) base))"
  using assms unfolding calculate_resource_allocation_def
  by (simp split: option.splits sum.splits if_splits)

lemma base_allocation_gb_total:
  "total_memory_gb si \<noteq> 0 \<Longrightarrow> \<exists>base. base_allocation_gb si best = Inr base"
  by (auto simp: base_allocation_gb_def Let_def)

lemma calculate_resource_allocation_total:
  assumes "total_memory_gb (system_info self) \<noteq> 0" and "devices self best = Some d"
  shows "\<exists>base. base_allocation_gb (system_info self) best = Inr base \<and>
     calculate_resource_allocation self best =
       Inr (allocation_record (system_info self) (other_processes self) best
           (final_allocation_gb (safe_allocation_gb (system_info self) (other_processes self) base)))"
proof -
  from assms(1) obtain base where "base_allocation_gb (system_info self) best = Inr base"
    using base_allocation_gb_total by blast
  with assms show ?thesis
    by (simp add: calculate_resource_allocation_def)
qed

lemma any_py_triggers:
  "any_py (conservative_triggers si ps b f) \<longleftrightarrow>
     available_memory_gb si < 2.0 \<or> length (filter is_gpu_intensive ps) > 8
     \<or> cpu_percent si > 95 \<or> f < 2.0 \<or> (b = ''mps'' \<and> available_memory_gb si < 3.0)"
  by (simp add: any_py_def conservative_triggers_def)

text \<open>
  Claim C1. For every state with total memory above zero, any available memory, cpu
  percentage and list of other processes, and every device of the catalogue,
  \<open>_calculate_resource_allocation\<close> returns an allocation whose recommended memory lies
  in [2.0, 16.0] and whose memory fraction lies in [0, 0.8].
\<close>

theorem allocation_bounds:
  assumes "total_memory_gb (system_info self) > 0" and "devices self best = Some d"
  shows "\<exists>a. calculate_resource_allocation self best = Inr a
           \<and> 2.0 \<le> recommended_memory_gb a \<and> recommended_memory_gb a \<le> 16.0
           \<and> 0 \<le> memory_fraction a \<and> memory_fraction a \<le> 0.8"
proof -
  from assms obtain base where
    a: "calculate_resource_allocation self best =
       Inr (allocation_record (system_info self) (other_processes self) best
           (final_allocation_gb (safe_allocation_gb (system_info self) (other_processes self) base)))"
    using calculate_resource_allocation_total [of self best d] by auto
  define f where
    "f = final_allocation_gb (safe_allocation_gb (system_info self) (other_processes self) base)"
  have lo: "2 \<le> f" and hi: "f \<le> 16"
    unfolding f_def by (rule final_allocation_gb_bounds)+
  from lo assms(1) have "0 \<le> f / total_memory_gb (system_info self)"
    by simp
  then have fr: "0 \<le> min (f / total_memory_gb (system_info self)) 0.8"
    by (intro min.boundedI) simp_all
  have fr2: "min (f / total_memory_gb (system_info self)) 0.8 \<le> 0.8"
    by (rule min.cobounded2)
  show ?thesis
    using a lo hi fr fr2 unfolding f_def [symmetric]
    by (simp add: allocation_record_simps)
qed

lemma detector_16_3_facts:
  "total_memory_gb (system_info detector_16_3) = 16"
  "available_memory_gb (system_info detector_16_3) = 3"
  "cpu_percent (system_info detector_16_3) = 10"
  "other_processes detector_16_3 = []"
  "devices detector_16_3 ''cpu'' = Some (device_info ''cpu'' True)"
  "devices detector_16_3 ''mps'' = Some (device_info ''mps'' True)"
  "devices detector_16_3 ''cuda'' = Some (device_info ''cuda'' False)"
  "devices detector_16_3 ''rocm'' = Some (device_info ''rocm'' False)"
  by (simp_all add: detector_16_3_def system_of_def catalogue_def)

theorem allocation_bounds_witness:
  "total_memory_gb (system_info detector_16_3) > 0
   \<and> devices detector_16_3 ''cpu'' = Some (device_info ''cpu'' True)
   \<and> (\<exists>a. calculate_resource_allocation detector_16_3 ''cpu'' = Inr a
           \<and> 2.0 \<le> recommended_memory_gb a \<and> recommended_memory_gb a \<le> 16.0
           \<and> 0 \<le> memory_fraction a \<and> memory_fraction a \<le> 0.8)"
proof -
  have h1: "total_memory_gb (system_info detector_16_3) > 0"
    by (simp add: detector_16_3_facts)
  have h2: "devices detector_16_3 ''cpu'' = Some (device_info ''cpu'' True)"
    by (simp add: detector_16_3_facts)
  from allocation_bounds [OF h1 h2] h1 h2 show ?thesis by blast
qed


section \<open>Properties of the device selection\<close>

lemma select_best_device_eq:
  "select_best_device self =
     (let si = system_info self;
          others =
            (if dev_supported self ''cuda'' \<and> \<not> available_memory_gb si < 6.0 then Inr ''cuda''
             else if dev_supported self ''rocm'' \<and> \<not> available_memory_gb si < 6.0 then Inr ''rocm''
             else Inr ''cpu'')
      in if dev_supported self ''mps'' then
           (if total_memory_gb si = 0 then Inl ZeroDivisionError
            else if available_memory_gb si / total_memory_gb si < 0.25 then others
            else Inr ''mps'')
         else others)"
  unfolding select_best_device_def priority_order_def dev_supported_def
  by (simp add: Let_def split: option.splits)

text \<open>
  Claim C4. Device selection follows the priority mps, cuda, rocm, cpu and takes the
  first eligible kind: mps when supported with available/total at least 0.25, also when
  cuda is supported with 8 GB available; cuda when mps is supported with
  available/total below 0.25 and cuda is supported with 10 GB available.
\<close>

theorem device_priority:
  assumes "total_memory_gb (system_info self) \<noteq> 0"
  shows "select_best_device self =
           Inr (if dev_supported self ''mps''
                   \<and> available_memory_gb (system_info self) / total_memory_gb (system_info self)
                       \<ge> 0.25
                then ''mps''
                else if dev_supported self ''cuda'' \<and> available_memory_gb (system_info self) \<ge> 6.0
                then ''cuda''
                else if dev_supported self ''rocm'' \<and> available_memory_gb (system_info self) \<ge> 6.0
                then ''rocm''
                else ''cpu'')
         \<and> (dev_supported self ''mps''
              \<and> available_memory_gb (system_info self) / total_memory_gb (system_info self) \<ge> 0.25
              \<and> dev_supported self ''cuda'' \<and> available_memory_gb (system_info self) = 8
              \<longrightarrow> select_best_device self = Inr ''mps'')
         \<and> (dev_supported self ''mps''
              \<and> available_memory_gb (system_info self) / total_memory_gb (system_info self) < 0.25
              \<and> dev_supported self ''cuda'' \<and> available_memory_gb (system_info self) = 10
              \<longrightarrow> select_best_device self = Inr ''cuda'')"
proof -
  let ?si = "system_info self"
  have gen: "select_best_device self =
           Inr (if dev_supported self ''mps''
                   \<and> available_memory_gb ?si / total_memory_gb ?si \<ge> 0.25
                then ''mps''
                else if dev_supported self ''cuda'' \<and> available_memory_gb ?si \<ge> 6.0
                then ''cuda''
                else if dev_supported self ''rocm'' \<and> available_memory_gb ?si \<ge> 6.0
                then ''rocm''
                else ''cpu'')"
    using assms unfolding select_best_device_eq Let_def not_less [symmetric]
    by (simp only: if_False if_distrib [of Inr] if_cancel split: if_splits) simp
  have a: "select_best_device self = Inr ''mps''"
    if "dev_supported self ''mps''"
      and "available_memory_gb ?si / total_memory_gb ?si \<ge> 0.25"
    using that unfolding gen by simp
  have b: "select_best_device self = Inr ''cuda''"
    if "dev_supported self ''mps''"
      and "available_memory_gb ?si / total_memory_gb ?si < 0.25"
      and "dev_supported self ''cuda''" and "available_memory_gb ?si = 10"
    using that unfolding gen by simp
  from gen a b show ?thesis by blast
qed

lemma detector_16_8_facts:
  "total_memory_gb (system_info detector_16_8) = 16"
  "available_memory_gb (system_info detector_16_8) = 8"
  "dev_supported detector_16_8 ''mps''"
  "dev_supported detector_16_8 ''cuda''"
  by (simp_all add: detector_16_8_def system_of_def catalogue_def dev_supported_def
       device_info_def)

lemma detector_100_10_facts:
  "total_memory_gb (system_info detector_100_10) = 100"
  "available_memory_gb (system_info detector_100_10) = 10"
  "dev_supported detector_100_10 ''mps''"
  "dev_supported detector_100_10 ''cuda''"
  by (simp_all add: detector_100_10_def system_of_def catalogue_def dev_supported_def
       device_info_def)

theorem device_priority_witness:
  "total_memory_gb (system_info detector_16_8) \<noteq> 0
   \<and> dev_supported detector_16_8 ''mps'' \<and> dev_supported detector_16_8 ''cuda''
   \<and> available_memory_gb (system_info detector_16_8) = 8
   \<and> select_best_device detector_16_8 = Inr ''mps''
   \<and> total_memory_gb (system_info detector_100_10) \<noteq> 0
   \<and> dev_supported detector_100_10 ''mps'' \<and> dev_supported detector_100_10 ''cuda''
   \<and> available_memory_gb (system_info detector_100_10) = 10
   \<and> select_best_device detector_100_10 = Inr ''cuda''"
proof -
  have a: "total_memory_gb (system_info detector_16_8) \<noteq> 0"
    by (simp add: detector_16_8_facts)
  have b: "total_memory_gb (system_info detector_100_10) \<noteq> 0"
    by (simp add: detector_100_10_facts)
  from device_priority [OF a] have "select_best_device detector_16_8 = Inr ''mps''"
    by (simp add: detector_16_8_facts)
  moreover from device_priority [OF b] have "select_best_device detector_100_10 = Inr ''cuda''"
    by (simp add: detector_100_10_facts)
  ultimately show ?thesis
    using a b by (simp add: detector_16_8_facts detector_100_10_facts)
qed

section \<open>The scenario with 16 GB in total and 3 GB available\<close>

lemma detector_16_3_supported:
  "dev_supported detector_16_3 ''mps''" "\<not> dev_supported detector_16_3 ''cuda''"
  by (simp_all add: detector_16_3_facts dev_supported_def device_info_def)

text \<open>
  Claim C2, as stated, fails: in the state with 16 GB in total, 3 GB available, mps
  supported, cuda not supported, no other process and the cpu at 10 percent, the cpu is
  selected, but the recommended memory is 2.1 GB, conservative mode is off and the
  batch size is 4.
\<close>

theorem scenario_16_3_counterexample:
  "select_best_device detector_16_3 = Inr ''cpu''
   \<and> map_sum id recommended_memory_gb (calculate_resource_allocation detector_16_3 ''cpu'')
       = Inr 2.1
   \<and> map_sum id use_conservative (calculate_resource_allocation detector_16_3 ''cpu'')
       = Inr False
   \<and> map_sum id batch_size (calculate_resource_allocation detector_16_3 ''cpu'') = Inr 4"
proof -
  have sel: "select_best_device detector_16_3 = Inr ''cpu''"
    by (simp add: select_best_device_eq Let_def detector_16_3_supported detector_16_3_facts
          dev_supported_def device_info_def)
  have base: "base_allocation_gb (system_info detector_16_3) ''cpu'' = Inr 2.1"
    by (simp add: base_allocation_gb_def detector_16_3_facts)
  have safe: "safe_allocation_gb (system_info detector_16_3) [] 2.1 = 2.1"
    by (simp add: safe_allocation_gb_def detector_16_3_facts other_processes_memory_gb_def)
  have fin: "final_allocation_gb 2.1 = 2.1"
    by (simp add: final_allocation_gb_def)
  have calc: "calculate_resource_allocation detector_16_3 ''cpu''
      = Inr (allocation_record (system_info detector_16_3) [] ''cpu'' 2.1)"
    by (simp add: calculate_resource_allocation_def detector_16_3_facts base safe fin)
  have trig: "\<not> any_py (conservative_triggers (system_info detector_16_3) [] ''cpu'' 2.1)"
    by (simp add: any_py_triggers detector_16_3_facts)
  show ?thesis
    using sel trig by (simp add: calc allocation_record_simps)
qed

text \<open>
  Claim C2, amended. In every state with 16 GB in total and 3 GB available, mps supported
  and cuda not supported, the selection skips mps and returns cpu; the allocation for cpu
  recommends max(2.0, min(2.1, 12.8 - other processes)) GB, between 2.0 and 2.1;
  conservative mode is on exactly when more than 8 resource-intensive processes run or
  the cpu is above 95 percent, and the batch size is 2 in conservative mode and 4
  otherwise.
\<close>

theorem scenario_16_3:
  assumes "total_memory_gb (system_info self) = 16"
    and "available_memory_gb (system_info self) = 3"
    and "dev_supported self ''mps''" and "\<not> dev_supported self ''cuda''"
    and "devices self ''cpu'' = Some c"
  shows "select_best_device self = Inr ''cpu''
     \<and> (\<exists>a. calculate_resource_allocation self ''cpu'' = Inr a
          \<and> recommended_memory_gb a
              = max 2.0 (min 2.1 (12.8 - other_processes_memory_gb (other_processes self)))
          \<and> 2.0 \<le> recommended_memory_gb a \<and> recommended_memory_gb a \<le> 2.1
          \<and> (use_conservative a \<longleftrightarrow>
                length (filter is_gpu_intensive (other_processes self)) > 8
                \<or> cpu_percent (system_info self) > 95)
          \<and> batch_size a = (if use_conservative a then 2 else 4))"
proof -
  have sel: "select_best_device self = Inr ''cpu''"
    using assms(1-4) by (simp add: select_best_device_eq Let_def)
  have base: "base_allocation_gb (system_info self) ''cpu'' = Inr 2.1"
    using assms(2) by (simp add: base_allocation_gb_def)
  define f where
    "f = max 2.0 (min 2.1 (12.8 - other_processes_memory_gb (other_processes self)))"
  have fin: "final_allocation_gb (safe_allocation_gb (system_info self) (other_processes self) 2.1)
      = f"
    using assms(1,2) unfolding f_def
    by (simp add: final_allocation_gb_def safe_allocation_gb_def)
  have calc: "calculate_resource_allocation self ''cpu''
      = Inr (allocation_record (system_info self) (other_processes self) ''cpu'' f)"
    using assms(1,5) by (simp add: calculate_resource_allocation_def base fin)
  have lo: "2.0 \<le> f"
    unfolding f_def by (rule max.cobounded1)
  have hi: "f \<le> 2.1"
    unfolding f_def by (intro max.boundedI min.cobounded1) simp
  have trig: "any_py (conservative_triggers (system_info self) (other_processes self) ''cpu'' f)
      \<longleftrightarrow> length (filter is_gpu_intensive (other_processes self)) > 8
           \<or> cpu_percent (system_info self) > 95"
    using lo assms(2) by (simp add: any_py_triggers)
  have feq: "recommended_memory_gb
        (allocation_record (system_info self) (other_processes self) ''cpu'' f)
      = max 2.0 (min 2.1 (12.8 - other_processes_memory_gb (other_processes self)))"
    unfolding f_def by (rule allocation_record_simps)
  have "recommended_memory_gb
        (allocation_record (system_info self) (other_processes self) ''cpu'' f) = f"
    by (rule allocation_record_simps)
  with sel lo hi trig feq show ?thesis
    unfolding calc by (simp add: allocation_record_simps(3,4))
qed

theorem scenario_16_3_witness:
  "total_memory_gb (system_info detector_16_3) = 16
   \<and> available_memory_gb (system_info detector_16_3) = 3
   \<and> dev_supported detector_16_3 ''mps'' \<and> \<not> dev_supported detector_16_3 ''cuda''
   \<and> devices detector_16_3 ''cpu'' = Some (device_info ''cpu'' True)
   \<and> select_best_device detector_16_3 = Inr ''cpu''
   \<and> (\<exists>a. calculate_resource_allocation detector_16_3 ''cpu'' = Inr a
          \<and> 2.0 \<le> recommended_memory_gb a \<and> recommended_memory_gb a \<le> 2.1
          \<and> \<not> use_conservative a \<and> batch_size a = 4)"
proof -
  note h = detector_16_3_facts(1) detector_16_3_facts(2) detector_16_3_supported
    detector_16_3_facts(5)
  from scenario_16_3 [OF h] show ?thesis
    by (auto simp: detector_16_3_facts detector_16_3_supported)
qed

section \<open>The conservative-mode triggers\<close>

text \<open>
  Claim C10. Whenever the allocation is computed, the fourth entry of the trigger list,
  final allocation below 2.0 GB, is false, since the final allocation has been raised to
  at least 2.0 GB before; conservative mode is on exactly when one of the other four
  triggers holds.
\<close>

theorem final_trigger_never_fires:
  assumes "calculate_resource_allocation self best = Inr a"
  shows "conservative_triggers (system_info self) (other_processes self) best
            (recommended_memory_gb a) ! 3 = False
     \<and> \<not> recommended_memory_gb a < 2.0
     \<and> (use_conservative a \<longleftrightarrow>
           available_memory_gb (system_info self) < 2.0
           \<or> length (filter is_gpu_intensive (other_processes self)) > 8
           \<or> cpu_percent (system_info self) > 95
           \<or> (best = ''mps'' \<and> available_memory_gb (system_info self) < 3.0))"
proof -
  from calculate_resource_allocation_Inr [OF assms] obtain base where
    a: "a = allocation_record (system_info self) (other_processes self) best
           (final_allocation_gb (safe_allocation_gb (system_info self) (other_processes self) base))"
    by blast
  define f where
    "f = final_allocation_gb (safe_allocation_gb (system_info self) (other_processes self) base)"
  have lo: "\<not> f < 2.0"
    using final_allocation_gb_bounds(1) [of "safe_allocation_gb (system_info self) (other_processes self) base"]
    unfolding f_def by simp
  have nth: "conservative_triggers (system_info self) (other_processes self) best f ! 3 = (f < 2.0)"
    by (simp add: conservative_triggers_def numeral_3_eq_3)
  show ?thesis
    using lo nth unfolding a f_def [symmetric]
    by (simp add: allocation_record_simps any_py_triggers)
qed

theorem final_trigger_never_fires_witness:
  "\<exists>a. calculate_resource_allocation detector_8_mps ''mps'' = Inr a
      \<and> conservative_triggers (system_info detector_8_mps) (other_processes detector_8_mps)
            ''mps'' (recommended_memory_gb a) ! 3 = False
      \<and> \<not> recommended_memory_gb a < 2.0
      \<and> use_conservative a"
proof -
  have t: "total_memory_gb (system_info detector_8_mps) \<noteq> 0"
    and d: "devices detector_8_mps ''mps'' = Some (device_info ''mps'' True)"
    and av: "available_memory_gb (system_info detector_8_mps) = 2.5"
    by (simp_all add: detector_8_mps_def system_of_def catalogue_def)
  from calculate_resource_allocation_total [OF t d] obtain a where
    a: "calculate_resource_allocation detector_8_mps ''mps'' = Inr a" by blast
  from final_trigger_never_fires [OF a] a show ?thesis
    by (auto simp: av)
qed

section \<open>Properties of the system probe\<close>

text \<open>
  Claim C9, as stated, fails: when the memory read raises, \<open>_get_system_info\<close> raises
  the same exception; no snapshot with a 0 in place of the metric is returned.
\<close>

theorem probe_failure_counterexample:
  "get_system_info probe_memory_fails = Inl (OSError ''virtual_memory'')"
  by (simp add: get_system_info_def probe_memory_fails_def probe_ok_def)

text \<open>
  Claim C9, amended. \<open>_get_system_info\<close> has no exception handler: it returns a
  snapshot exactly when the memory read, the cpu sample, the disk read and the core
  count all succeed, and the snapshot is then the platform, the core count, the cpu
  sample, and the total memory, available memory and free disk space read, each divided
  by 1024 cubed; when a read fails, the exception of the first failing read leaves the
  function and no default is substituted.
\<close>

theorem probe_without_defaults:
  "((\<exists>s. get_system_info env = Inr s) \<longleftrightarrow>
      \<not> isl (virtual_memory env) \<and> \<not> isl (cpu_percent_read env)
      \<and> \<not> isl (disk_usage env) \<and> \<not> isl (cpu_count env))
   \<and> (\<forall>e. virtual_memory env = Inl e \<longrightarrow> get_system_info env = Inl e)
   \<and> (\<forall>e. \<not> isl (virtual_memory env) \<and> cpu_percent_read env = Inl e
          \<longrightarrow> get_system_info env = Inl e)
   \<and> (\<forall>e. \<not> isl (virtual_memory env) \<and> \<not> isl (cpu_percent_read env)
          \<and> disk_usage env = Inl e \<longrightarrow> get_system_info env = Inl e)
   \<and> (\<forall>e. \<not> isl (virtual_memory env) \<and> \<not> isl (cpu_percent_read env)
          \<and> \<not> isl (disk_usage env) \<and> cpu_count env = Inl e
          \<longrightarrow> get_system_info env = Inl e)
   \<and> (\<forall>t a c f n. virtual_memory env = Inr (t, a) \<and> cpu_percent_read env = Inr c
          \<and> disk_usage env = Inr f \<and> cpu_count env = Inr n
          \<longrightarrow> get_system_info env
                = Inr \<lparr> platform = sys_platform env,
                        cpu_cores = n,
                        total_memory_gb = real t / 1024 ^ 3,
                        available_memory_gb = real a / 1024 ^ 3,
                        cpu_percent = c,
                        disk_free_gb = real f / 1024 ^ 3 \<rparr>)"
  unfolding get_system_info_def
  by (cases "virtual_memory env"; cases "cpu_percent_read env"; cases "disk_usage env";
      cases "cpu_count env") (auto split: prod.splits)

theorem probe_without_defaults_witness:
  "get_system_info probe_ok
     = Inr \<lparr> platform = ''linux'', cpu_cores = 8, total_memory_gb = 2,
             available_memory_gb = 1, cpu_percent = 10, disk_free_gb = 4 \<rparr>
   \<and> virtual_memory probe_memory_fails = Inl (OSError ''virtual_memory'')
   \<and> get_system_info probe_memory_fails = Inl (OSError ''virtual_memory'')"
proof -
  have vals: "virtual_memory probe_ok = Inr (2 * 1024 ^ 3, 1024 ^ 3)"
    "cpu_percent_read probe_ok = Inr 10" "disk_usage probe_ok = Inr (4 * 1024 ^ 3)"
    "cpu_count probe_ok = Inr 8" "sys_platform probe_ok = ''linux''"
    by (simp_all add: probe_ok_def)
  have bad: "virtual_memory probe_memory_fails = Inl (OSError ''virtual_memory'')"
    by (simp add: probe_memory_fails_def)
  from probe_without_defaults [of probe_ok] vals
  have "get_system_info probe_ok
      = Inr \<lparr> platform = ''linux'', cpu_cores = 8,
              total_memory_gb = real (2 * 1024 ^ 3) / 1024 ^ 3,
              available_memory_gb = real (1024 ^ 3) / 1024 ^ 3,
              cpu_percent = 10,
              disk_free_gb = real (4 * 1024 ^ 3) / 1024 ^ 3 \<rparr>"
    by simp
  then have ok: "get_system_info probe_ok
     = Inr \<lparr> platform = ''linux'', cpu_cores = 8, total_memory_gb = 2,
             available_memory_gb = 1, cpu_percent = 10, disk_free_gb = 4 \<rparr>"
    by simp
  from probe_without_defaults [of probe_memory_fails] bad
  have "get_system_info probe_memory_fails = Inl (OSError ''virtual_memory'')"
    by blast
  with ok bad show ?thesis by blast
qed

section \<open>Properties of the threshold adjustment\<close>

lemma adjust_thresholds_detector:
  "device_detector (adjust_thresholds_for_device m) = device_detector m"
  by (simp add: adjust_thresholds_for_device_def Let_def split: option.splits prod.splits)

lemma adjust_thresholds_idem:
  "adjust_thresholds_for_device (adjust_thresholds_for_device m)
     = adjust_thresholds_for_device m"
  by (cases "device_detector m")
     (auto simp: adjust_thresholds_for_device_def Let_def split: prod.splits)

lemma adjust_thresholds_funpow:
  "0 < n \<Longrightarrow> (adjust_thresholds_for_device ^^ n) m = adjust_thresholds_for_device m"
proof (induction n)
  case 0
  then show ?case by simp
next
  case (Suc n)
  show ?case
  proof (cases "n = 0")
    case True
    then show ?thesis by simp
  next
    case False
    with Suc.IH have "(adjust_thresholds_for_device ^^ n) m = adjust_thresholds_for_device m"
      by simp
    then show ?thesis by (simp add: adjust_thresholds_idem)
  qed
qed

text \<open>
  Claim C7. For a monitor with a device detector, adjusting the thresholds again gives
  the thresholds of the first adjustment, for any number of repetitions; the memory
  warning and critical thresholds are 4.0 and 2.0 GB for mps, 8.0 and 4.0 GB for cpu,
  6.0 and 3.0 GB otherwise, each multiplied by 1.2 in conservative mode; the cpu
  thresholds are not changed.
\<close>

theorem threshold_adjustment:
  assumes "device_detector m = Some (kind, allocation)"
  shows "adjust_thresholds_for_device (adjust_thresholds_for_device m)
           = adjust_thresholds_for_device m
     \<and> (\<forall>n. 0 < n \<longrightarrow>
           (adjust_thresholds_for_device ^^ n) m = adjust_thresholds_for_device m)
     \<and> memory_warning (thresholds (adjust_thresholds_for_device m))
         = (if kind = ''mps'' then 4.0 else if kind = ''cpu'' then 8.0 else 6.0)
           * (if use_conservative allocation then 1.2 else 1)
     \<and> memory_critical (thresholds (adjust_thresholds_for_device m))
         = (if kind = ''mps'' then 2.0 else if kind = ''cpu'' then 4.0 else 3.0)
           * (if use_conservative allocation then 1.2 else 1)
     \<and> cpu_warning (thresholds (adjust_thresholds_for_device m)) = cpu_warning (thresholds m)
     \<and> cpu_critical (thresholds (adjust_thresholds_for_device m)) = cpu_critical (thresholds m)"
proof -
  have vals:
    "memory_warning (thresholds (adjust_thresholds_for_device m))
         = (if kind = ''mps'' then 4.0 else if kind = ''cpu'' then 8.0 else 6.0)
           * (if use_conservative allocation then 1.2 else 1)"
    "memory_critical (thresholds (adjust_thresholds_for_device m))
         = (if kind = ''mps'' then 2.0 else if kind = ''cpu'' then 4.0 else 3.0)
           * (if use_conservative allocation then 1.2 else 1)"
    "cpu_warning (thresholds (adjust_thresholds_for_device m)) = cpu_warning (thresholds m)"
    "cpu_critical (thresholds (adjust_thresholds_for_device m)) = cpu_critical (thresholds m)"
    using assms by (simp_all add: adjust_thresholds_for_device_def Let_def)
  show ?thesis
    using vals adjust_thresholds_idem [of m] adjust_thresholds_funpow [of _ m] by blast
qed

theorem threshold_adjustment_witness:
  "device_detector (monitor_example ''mps'' True) = Some (''mps'', allocation_example True)
   \<and> adjust_thresholds_for_device (adjust_thresholds_for_device (monitor_example ''mps'' True))
       = adjust_thresholds_for_device (monitor_example ''mps'' True)
   \<and> memory_warning (thresholds (adjust_thresholds_for_device (monitor_example ''mps'' True)))
       = 4.8
   \<and> memory_critical (thresholds (adjust_thresholds_for_device (monitor_example ''mps'' True)))
       = 2.4
   \<and> cpu_warning (thresholds (adjust_thresholds_for_device (monitor_example ''mps'' True))) = 80"
proof -
  have d: "device_detector (monitor_example ''mps'' True) = Some (''mps'', allocation_example True)"
    by (simp add: monitor_example_def)
  have c: "use_conservative (allocation_example True)"
    by (simp add: allocation_example_def)
  have w: "cpu_warning (thresholds (monitor_example ''mps'' True)) = 80"
    by (simp add: monitor_example_def initial_thresholds_def)
  from threshold_adjustment [OF d] c w d show ?thesis by simp
qed

section \<open>Properties of the alert cooldown\<close>

lemma key_parts_inject:
  "resource_value r @ ''_'' @ level_value l = resource_value r' @ ''_'' @ level_value l'
     \<longleftrightarrow> r = r' \<and> l = l'"
  by (cases r; cases r'; cases l; cases l'; simp)

lemma alert_key_eq_iff:
  "alert_key a = alert_key b \<longleftrightarrow> resource_type a = resource_type b \<and> level a = level b"
  unfolding alert_key_def by (rule key_parts_inject)

lemma alert_key_memory_critical:
  "alert_key a = ''memory_critical'' \<longleftrightarrow> resource_type a = MEMORY \<and> level a = CRITICAL"
proof -
  have "''memory_critical'' = resource_value MEMORY @ ''_'' @ level_value CRITICAL"
    by simp
  then show ?thesis
    unfolding alert_key_def by (simp only: key_parts_inject)
qed

lemma deliveries_snoc:
  "deliveries n (es @ [e]) = deliveries n es @ map (\<lambda>i. (i, fst e)) [0..<n]"
  by (simp add: deliveries_def)

lemma process_alert_cases:
  "process_alert n st (a, t) =
     (if cooldown_over (last_alert_time st) (alert_key a) t then
        st\<lparr> alert_history := alert_history st @ [a],
            last_alert_time := (last_alert_time st)(alert_key a \<mapsto> t),
            delivered := delivered st @ map (\<lambda>i. (i, a)) [0..<n],
            emissions := emissions st @ [(a, t)] \<rparr>
      else st)"
  by (simp add: process_alert_def Let_def)

lemma cooldown_over_emissions:
  assumes "loop_invariant n h st"
  shows "cooldown_over (last_alert_time st) (alert_key a) t
     \<longleftrightarrow> (\<forall>e \<in> set (emissions st). alert_key (fst e) = alert_key a \<longrightarrow> t - snd e > 30)"
proof (cases "last_alert_time st (alert_key a)")
  case None
  have "alert_key (fst e) \<noteq> alert_key a" if "e \<in> set (emissions st)" for e
    using assms that None unfolding loop_invariant_def by force
  with None show ?thesis by (auto simp: cooldown_over_def)
next
  case (Some t0)
  from assms Some obtain e0 where e0: "e0 \<in> set (emissions st)"
    "alert_key (fst e0) = alert_key a" "snd e0 = t0"
    unfolding loop_invariant_def by blast
  have le: "snd e \<le> t0" if "e \<in> set (emissions st)" "alert_key (fst e) = alert_key a" for e
    using assms that Some unfolding loop_invariant_def by force
  show ?thesis
  proof
    assume "cooldown_over (last_alert_time st) (alert_key a) t"
    then have "t - t0 > 30" using Some by (simp add: cooldown_over_def)
    then show "\<forall>e \<in> set (emissions st). alert_key (fst e) = alert_key a \<longrightarrow> t - snd e > 30"
      using le by fastforce
  next
    assume "\<forall>e \<in> set (emissions st). alert_key (fst e) = alert_key a \<longrightarrow> t - snd e > 30"
    with e0 have "t - t0 > 30" by blast
    then show "cooldown_over (last_alert_time st) (alert_key a) t"
      using Some by (simp add: cooldown_over_def)
  qed
qed

lemma loop_invariant_step:
  assumes "loop_invariant n h st"
  shows "loop_invariant n h (process_alert n st (a, t))"
proof (cases "cooldown_over (last_alert_time st) (alert_key a) t")
  case False
  with assms show ?thesis by (simp add: process_alert_cases)
next
  case True
  let ?st = "st\<lparr> alert_history := alert_history st @ [a],
            last_alert_time := (last_alert_time st)(alert_key a \<mapsto> t),
            delivered := delivered st @ map (\<lambda>i. (i, a)) [0..<n],
            emissions := emissions st @ [(a, t)] \<rparr>"
  have old: "snd e < t" if "e \<in> set (emissions st)" "alert_key (fst e) = alert_key a" for e
    using True assms that cooldown_over_emissions [OF assms, of a t] by fastforce
  have j: "\<exists>t0. last_alert_time ?st (alert_key (fst e)) = Some t0 \<and> snd e \<le> t0"
    if "e \<in> set (emissions ?st)" for e
  proof (cases "alert_key (fst e) = alert_key a")
    case True
    with that old [of e] show ?thesis by auto
  next
    case False
    with that have "e \<in> set (emissions st)" by auto
    with assms False show ?thesis unfolding loop_invariant_def by auto
  qed
  have i: "\<exists>e \<in> set (emissions ?st). alert_key (fst e) = k \<and> snd e = t0"
    if "last_alert_time ?st k = Some t0" for k t0
  proof (cases "k = alert_key a")
    case True
    with that show ?thesis by auto
  next
    case False
    with that have "last_alert_time st k = Some t0" by simp
    with assms obtain e where "e \<in> set (emissions st)" "alert_key (fst e) = k" "snd e = t0"
      unfolding loop_invariant_def by blast
    then show ?thesis by auto
  qed
  have hd: "alert_history ?st = h @ map fst (emissions ?st)"
    "delivered ?st = deliveries n (emissions ?st)"
    using assms unfolding loop_invariant_def by (simp_all add: deliveries_snoc)
  have "loop_invariant n h ?st"
    unfolding loop_invariant_def using j i hd by blast
  with True show ?thesis by (simp add: process_alert_cases)
qed

lemma loop_invariant_foldl:
  "loop_invariant n h st \<Longrightarrow> loop_invariant n h (foldl (process_alert n) st evs)"
proof (induction evs arbitrary: st)
  case Nil
  then show ?case by simp
next
  case (Cons ev evs)
  obtain a t where ev: "ev = (a, t)" by (cases ev)
  from Cons.prems have "loop_invariant n h (process_alert n st ev)"
    unfolding ev by (rule loop_invariant_step)
  then show ?case using Cons.IH by simp
qed

lemma loop_invariant_monitor_loop: "loop_invariant n h (monitor_loop n h evs)"
  unfolding monitor_loop_def
  by (rule loop_invariant_foldl) (simp add: loop_invariant_def deliveries_def)

lemma monitor_loop_snoc:
  "monitor_loop n h (evs @ [(a, t)]) = process_alert n (monitor_loop n h evs) (a, t)"
  by (simp add: monitor_loop_def)

lemma emissions_snoc:
  "emissions (monitor_loop n h (evs @ [(a, t)]))
     = emissions (monitor_loop n h evs)
       @ (if \<forall>e \<in> set (emissions (monitor_loop n h evs)).
               alert_key (fst e) = alert_key a \<longrightarrow> t - snd e > 30
          then [(a, t)] else [])"
  unfolding monitor_loop_snoc process_alert_cases
  by (simp add: cooldown_over_emissions [OF loop_invariant_monitor_loop])

lemma emissions_spaced:
  "sorted_wrt (\<lambda>x y. alert_key (fst x) = alert_key (fst y) \<longrightarrow> snd y - snd x > 30)
     (emissions (monitor_loop n h evs))"
proof (induction evs rule: rev_induct)
  case Nil
  show ?case by (simp add: monitor_loop_def)
next
  case (snoc ev evs)
  obtain a t where ev: "ev = (a, t)" by (cases ev)
  show ?case
    unfolding ev emissions_snoc using snoc.IH by (auto simp: sorted_wrt_append)
qed

lemma should_show_alert_fst:
  "fst (should_show_alert agg key t)
     \<longleftrightarrow> (\<forall>t0. agg_last_alert_time agg key = Some t0 \<longrightarrow> t - t0 > alert_cooldown agg)"
  by (simp add: should_show_alert_def split: option.splits)

text \<open>
  Claim C8. The key of an alert is \<open>resource_level\<close>, one key for each pair of resource
  and level. Over any sequence of alerts handled by one run of the monitor loop, an
  alert is emitted (appended to the history and delivered to every callback) exactly
  when more than 30 seconds lie between it and every earlier emission of its key; so two
  emissions of one key are more than 30 seconds apart, and an alert is emitted only when
  at least 30 seconds have passed since the last emission of its key. A
  \<open>memory_critical\<close> alert fired twice within 10 seconds is emitted once; fired again 31
  seconds later it is emitted a second time. The aggregator of the server shows an alert
  under the same cooldown.
\<close>

theorem alert_cooldown_30s:
  assumes "resource_type a1 = MEMORY \<and> level a1 = CRITICAL"
    and "resource_type a2 = MEMORY \<and> level a2 = CRITICAL"
    and "resource_type a3 = MEMORY \<and> level a3 = CRITICAL"
    and "0 \<le> d" and "d \<le> 10"
  shows
    "(alert_key a = alert_key b \<longleftrightarrow> resource_type a = resource_type b \<and> level a = level b)
     \<and> (alert_key a = ''memory_critical'' \<longleftrightarrow> resource_type a = MEMORY \<and> level a = CRITICAL)
     \<and> emissions (monitor_loop n h (evs @ [(a, t)]))
         = emissions (monitor_loop n h evs)
           @ (if \<forall>e \<in> set (emissions (monitor_loop n h evs)).
                   alert_key (fst e) = alert_key a \<longrightarrow> t - snd e > 30
              then [(a, t)] else [])
     \<and> (\<forall>i j. i < j \<and> j < length (emissions (monitor_loop n h evs))
            \<and> alert_key (fst (emissions (monitor_loop n h evs) ! i))
                = alert_key (fst (emissions (monitor_loop n h evs) ! j))
          \<longrightarrow> snd (emissions (monitor_loop n h evs) ! j)
                - snd (emissions (monitor_loop n h evs) ! i) > 30
              \<and> snd (emissions (monitor_loop n h evs) ! j)
                - snd (emissions (monitor_loop n h evs) ! i) \<ge> 30)
     \<and> alert_history (monitor_loop n h evs) = h @ map fst (emissions (monitor_loop n h evs))
     \<and> delivered (monitor_loop n h evs) = deliveries n (emissions (monitor_loop n h evs))
     \<and> emissions (monitor_loop n h []) = []
     \<and> alert_history (monitor_loop n [] [(a1, t1), (a2, t1 + d)]) = [a1]
     \<and> delivered (monitor_loop n [] [(a1, t1), (a2, t1 + d)]) = map (\<lambda>i. (i, a1)) [0..<n]
     \<and> alert_history (monitor_loop n [] [(a1, t1), (a2, t1 + d), (a3, t1 + d + 31)]) = [a1, a3]
     \<and> delivered (monitor_loop n [] [(a1, t1), (a2, t1 + d), (a3, t1 + d + 31)])
         = map (\<lambda>i. (i, a1)) [0..<n] @ map (\<lambda>i. (i, a3)) [0..<n]
     \<and> (fst (should_show_alert agg key t)
          \<longleftrightarrow> (\<forall>t0. agg_last_alert_time agg key = Some t0 \<longrightarrow> t - t0 > alert_cooldown agg))
     \<and> alert_cooldown (new_aggregator t1) = 30
     \<and> (fst (should_show_alert (new_aggregator t1) ''memory_critical'' t1)
          \<and> \<not> fst (should_show_alert
                    (snd (should_show_alert (new_aggregator t1) ''memory_critical'' t1))
                    ''memory_critical'' (t1 + d))
          \<and> fst (should_show_alert
                  (snd (should_show_alert
                    (snd (should_show_alert (new_aggregator t1) ''memory_critical'' t1))
                    ''memory_critical'' (t1 + d)))
                  ''memory_critical'' (t1 + d + 31)))"
proof -
  let ?E = "emissions (monitor_loop n h evs)"
  have spaced: "\<forall>i j. i < j \<and> j < length ?E
            \<and> alert_key (fst (?E ! i)) = alert_key (fst (?E ! j))
          \<longrightarrow> snd (?E ! j) - snd (?E ! i) > 30 \<and> snd (?E ! j) - snd (?E ! i) \<ge> 30"
    using emissions_spaced [of n h evs] unfolding sorted_wrt_iff_nth_less
    by (simp add: less_imp_le)
  have hist: "alert_history (monitor_loop n h evs) = h @ map fst ?E"
    "delivered (monitor_loop n h evs) = deliveries n ?E"
    using loop_invariant_monitor_loop [of n h evs] unfolding loop_invariant_def by simp_all
  have e0: "emissions (monitor_loop n h []) = []"
    by (simp add: monitor_loop_def)
  have k: "alert_key a2 = alert_key a1" "alert_key a3 = alert_key a1"
    using assms(1-3) by (simp_all add: alert_key_eq_iff)
  have em0: "emissions (monitor_loop n [] []) = []"
    by (simp add: monitor_loop_def)
  have em1: "emissions (monitor_loop n [] [(a1, t1)]) = [(a1, t1)]"
    using emissions_snoc [of n "[]" "[]" a1 t1] by (simp add: em0)
  have em2: "emissions (monitor_loop n [] [(a1, t1), (a2, t1 + d)]) = [(a1, t1)]"
    using emissions_snoc [of n "[]" "[(a1, t1)]" a2 "t1 + d"] assms(5) k
    by (simp add: em1)
  have em3: "emissions (monitor_loop n [] [(a1, t1), (a2, t1 + d), (a3, t1 + d + 31)])
      = [(a1, t1), (a3, t1 + d + 31)]"
    using emissions_snoc [of n "[]" "[(a1, t1), (a2, t1 + d)]" a3 "t1 + d + 31"] assms(4) k
    by (simp add: em2)
  have two: "alert_history (monitor_loop n [] [(a1, t1), (a2, t1 + d)]) = [a1]"
    "delivered (monitor_loop n [] [(a1, t1), (a2, t1 + d)]) = map (\<lambda>i. (i, a1)) [0..<n]"
    using loop_invariant_monitor_loop [of n "[]" "[(a1, t1), (a2, t1 + d)]"]
    unfolding loop_invariant_def by (simp_all add: em2 deliveries_def)
  have three:
    "alert_history (monitor_loop n [] [(a1, t1), (a2, t1 + d), (a3, t1 + d + 31)]) = [a1, a3]"
    "delivered (monitor_loop n [] [(a1, t1), (a2, t1 + d), (a3, t1 + d + 31)])
         = map (\<lambda>i. (i, a1)) [0..<n] @ map (\<lambda>i. (i, a3)) [0..<n]"
    using loop_invariant_monitor_loop [of n "[]" "[(a1, t1), (a2, t1 + d), (a3, t1 + d + 31)]"]
    unfolding loop_invariant_def by (simp_all add: em3 deliveries_def)
  let ?g0 = "new_aggregator t1"
  let ?g1 = "snd (should_show_alert ?g0 ''memory_critical'' t1)"
  let ?g2 = "snd (should_show_alert ?g1 ''memory_critical'' (t1 + d))"
  have c30: "alert_cooldown (new_aggregator t1) = 30"
    by (simp add: new_aggregator_def)
  have g0: "fst (should_show_alert ?g0 ''memory_critical'' t1)"
    by (simp add: should_show_alert_def new_aggregator_def)
  have g1: "agg_last_alert_time ?g1 ''memory_critical'' = Some t1" "alert_cooldown ?g1 = 30"
    by (simp_all add: should_show_alert_def new_aggregator_def)
  have g1n: "\<not> fst (should_show_alert ?g1 ''memory_critical'' (t1 + d))"
    using assms(4,5) by (simp add: should_show_alert_fst g1)
  have g2eq: "?g2 = ?g1"
    using assms(4,5) by (simp add: should_show_alert_def [of ?g1] g1)
  have g2: "fst (should_show_alert ?g2 ''memory_critical'' (t1 + d + 31))"
    unfolding g2eq using assms(4) by (simp add: should_show_alert_fst g1)
  from alert_key_eq_iff [of a b] alert_key_memory_critical [of a]
    emissions_snoc [of n h evs a t] spaced hist e0 two three
    should_show_alert_fst [of agg key t] c30 g0 g1n g2
  show ?thesis by blast
qed

lemma memory_critical_alert_kind:
  "resource_type (memory_critical_alert t) = MEMORY \<and> level (memory_critical_alert t) = CRITICAL"
  by (simp add: memory_critical_alert_def)

theorem alert_cooldown_30s_witness:
  "resource_type (memory_critical_alert 0) = MEMORY \<and> level (memory_critical_alert 0) = CRITICAL
   \<and> (0::real) \<le> 10 \<and> (10::real) \<le> 10
   \<and> alert_key (memory_critical_alert 0) = ''memory_critical''
   \<and> alert_history (monitor_loop 1 []
        [(memory_critical_alert 0, 0), (memory_critical_alert 10, 0 + 10)])
       = [memory_critical_alert 0]
   \<and> alert_history (monitor_loop 1 []
        [(memory_critical_alert 0, 0), (memory_critical_alert 10, 0 + 10),
         (memory_critical_alert 41, 0 + 10 + 31)])
       = [memory_critical_alert 0, memory_critical_alert 41]"
proof -
  have r: "(0::real) \<le> 10" "(10::real) \<le> 10" by simp_all
  have k0: "resource_type (memory_critical_alert 0) = MEMORY
      \<and> level (memory_critical_alert 0) = CRITICAL"
    and k10: "resource_type (memory_critical_alert 10) = MEMORY
      \<and> level (memory_critical_alert 10) = CRITICAL"
    and k41: "resource_type (memory_critical_alert 41) = MEMORY
      \<and> level (memory_critical_alert 41) = CRITICAL"
    by (rule memory_critical_alert_kind)+
  from alert_cooldown_30s [OF k0 k10 k41 r, where n = 1 and ?t1.0 = 0
      and a = "memory_critical_alert 0" and b = "memory_critical_alert 0" and h = "[]"
      and evs = "[]" and t = 0 and agg = "new_aggregator 0" and key = "''memory_critical''"]
  show ?thesis using k0 by simp
qed

section \<open>Properties of the model loader\<close>

text \<open>
  Claim C6, as stated, fails: a packed (gguf) model whose load fails on mps is not
  retried on cpu. The exception of the only load call leaves \<open>load_model\<close>, the device
  is still mps and the conservative flag is not set.
\<close>

theorem load_fallback_counterexample:
  "snd (load_model load_env_gguf model_state_mps)
     = Some (RuntimeError ''failed to load model from file'')
   \<and> device (fst (load_model load_env_gguf model_state_mps)) = ''mps''
   \<and> load_calls (fst (load_model load_env_gguf model_state_mps)) = [(''gguf'', ''mps'')]
   \<and> \<not> use_conservative_settings (fst (load_model load_env_gguf model_state_mps))
   \<and> \<not> is_loaded (fst (load_model load_env_gguf model_state_mps))"
  by (simp add: load_model_def first_load_def call_load_gguf_def load_env_gguf_def
        model_state_mps_def allocation_example_def)

text \<open>
  Claim C6, amended. When the model is a full-precision (pytorch) model, the device is mps
  and the load on mps fails, \<open>load_model\<close> sets the device to cpu, the memory budget to
  min(8.0, 0.6 times the available memory) and the conservative flag to true, and calls
  the loader exactly once more, on cpu. When that load succeeds the model is loaded;
  when it fails, a RuntimeError naming the first failure leaves \<open>load_model\<close>, the model
  is not loaded and no further load is tried. A packed (gguf) model gets no cpu
  fallback on any device: the exception of its single loader call (the gguf loader, or
  the PyTorch stand-in when the packed runtime is missing) leaves \<open>load_model\<close>
  unchanged, and without runtime and stand-in an ImportError is raised before any load.
  A full-precision model on another device than mps gets no fallback either.
\<close>

theorem load_fallback_once:
  assumes "\<not> is_loaded st" and "model_path_exists env"
  shows
    "(detected_model_type env = ''pytorch'' \<and> device st = ''mps''
        \<and> load_pytorch_model env ''mps'' = Some e \<longrightarrow>
        device (fst (load_model env st)) = ''cpu''
        \<and> max_memory_gb (fst (load_model env st))
            = min 8.0 (available_memory_gb (det_system_info env) * 0.6)
        \<and> use_conservative_settings (fst (load_model env st))
        \<and> load_calls (fst (load_model env st))
            = load_calls st @ [(''pytorch'', ''mps''), (''pytorch'', ''cpu'')]
        \<and> (load_pytorch_model env ''cpu'' = None \<longrightarrow>
             snd (load_model env st) = None \<and> is_loaded (fst (load_model env st)))
        \<and> (\<forall>e2. load_pytorch_model env ''cpu'' = Some e2 \<longrightarrow>
             snd (load_model env st)
               = Some (RuntimeError
                   (''Model loading failed on both MPS and CPU: '' @ exception_text env e))
             \<and> \<not> is_loaded (fst (load_model env st))))
     \<and> (detected_model_type env = ''gguf'' \<and> llama_cpp_available env
        \<and> load_gguf_model env (device st) = Some e \<longrightarrow>
        snd (load_model env st) = Some e
        \<and> device (fst (load_model env st)) = device st
        \<and> load_calls (fst (load_model env st)) = load_calls st @ [(''gguf'', device st)]
        \<and> \<not> is_loaded (fst (load_model env st))
        \<and> max_memory_gb (fst (load_model env st)) = recommended_memory_gb (det_allocation env)
        \<and> use_conservative_settings (fst (load_model env st))
            = use_conservative (det_allocation env))
     \<and> (detected_model_type env = ''gguf'' \<and> \<not> llama_cpp_available env
        \<and> pytorch_path_exists env \<and> load_pytorch_model env (device st) = Some e \<longrightarrow>
        snd (load_model env st) = Some e
        \<and> device (fst (load_model env st)) = device st
        \<and> load_calls (fst (load_model env st)) = load_calls st @ [(''pytorch'', device st)]
        \<and> \<not> is_loaded (fst (load_model env st))
        \<and> max_memory_gb (fst (load_model env st)) = recommended_memory_gb (det_allocation env)
        \<and> use_conservative_settings (fst (load_model env st))
            = use_conservative (det_allocation env))
     \<and> (detected_model_type env = ''gguf'' \<and> \<not> llama_cpp_available env
        \<and> \<not> pytorch_path_exists env \<longrightarrow>
        snd (load_model env st)
          = Some (ImportError ''llama-cpp-python not available and no PyTorch fallback found'')
        \<and> device (fst (load_model env st)) = device st
        \<and> load_calls (fst (load_model env st)) = load_calls st
        \<and> \<not> is_loaded (fst (load_model env st)))
     \<and> (detected_model_type env \<noteq> ''gguf'' \<and> device st \<noteq> ''mps''
        \<and> load_pytorch_model env (device st) = Some e \<longrightarrow>
        snd (load_model env st) = Some e
        \<and> device (fst (load_model env st)) = device st
        \<and> load_calls (fst (load_model env st)) = load_calls st @ [(''pytorch'', device st)]
        \<and> \<not> is_loaded (fst (load_model env st)))"
proof -
  have a: "device (fst (load_model env st)) = ''cpu''
        \<and> max_memory_gb (fst (load_model env st))
            = min 8.0 (available_memory_gb (det_system_info env) * 0.6)
        \<and> use_conservative_settings (fst (load_model env st))
        \<and> load_calls (fst (load_model env st))
            = load_calls st @ [(''pytorch'', ''mps''), (''pytorch'', ''cpu'')]
        \<and> (load_pytorch_model env ''cpu'' = None \<longrightarrow>
             snd (load_model env st) = None \<and> is_loaded (fst (load_model env st)))
        \<and> (\<forall>e2. load_pytorch_model env ''cpu'' = Some e2 \<longrightarrow>
             snd (load_model env st)
               = Some (RuntimeError
                   (''Model loading failed on both MPS and CPU: '' @ exception_text env e))
             \<and> \<not> is_loaded (fst (load_model env st)))"
    if "detected_model_type env = ''pytorch''" "device st = ''mps''"
      "load_pytorch_model env ''mps'' = Some e"
    using that assms
    by (cases "load_pytorch_model env ''cpu''")
       (simp_all add: load_model_def Let_def first_load_def call_load_pytorch_def)
  have b: "snd (load_model env st) = Some e
        \<and> device (fst (load_model env st)) = device st
        \<and> load_calls (fst (load_model env st)) = load_calls st @ [(''gguf'', device st)]
        \<and> \<not> is_loaded (fst (load_model env st))
        \<and> max_memory_gb (fst (load_model env st)) = recommended_memory_gb (det_allocation env)
        \<and> use_conservative_settings (fst (load_model env st))
            = use_conservative (det_allocation env)"
    if "detected_model_type env = ''gguf''" "llama_cpp_available env"
      "load_gguf_model env (device st) = Some e"
    using that assms by (simp add: load_model_def Let_def first_load_def call_load_gguf_def)
  have c: "snd (load_model env st) = Some e
        \<and> device (fst (load_model env st)) = device st
        \<and> load_calls (fst (load_model env st)) = load_calls st @ [(''pytorch'', device st)]
        \<and> \<not> is_loaded (fst (load_model env st))
        \<and> max_memory_gb (fst (load_model env st)) = recommended_memory_gb (det_allocation env)
        \<and> use_conservative_settings (fst (load_model env st))
            = use_conservative (det_allocation env)"
    if "detected_model_type env = ''gguf''" "\<not> llama_cpp_available env"
      "pytorch_path_exists env" "load_pytorch_model env (device st) = Some e"
    using that assms by (simp add: load_model_def Let_def first_load_def call_load_pytorch_def)
  have d: "snd (load_model env st)
          = Some (ImportError ''llama-cpp-python not available and no PyTorch fallback found'')
        \<and> device (fst (load_model env st)) = device st
        \<and> load_calls (fst (load_model env st)) = load_calls st
        \<and> \<not> is_loaded (fst (load_model env st))"
    if "detected_model_type env = ''gguf''" "\<not> llama_cpp_available env"
      "\<not> pytorch_path_exists env"
    using that assms by (simp add: load_model_def Let_def first_load_def)
  have f: "snd (load_model env st) = Some e
        \<and> device (fst (load_model env st)) = device st
        \<and> load_calls (fst (load_model env st)) = load_calls st @ [(''pytorch'', device st)]
        \<and> \<not> is_loaded (fst (load_model env st))"
    if "detected_model_type env \<noteq> ''gguf''" "device st \<noteq> ''mps''"
      "load_pytorch_model env (device st) = Some e"
    using that assms by (simp add: load_model_def Let_def first_load_def call_load_pytorch_def)
  from a b c d f show ?thesis by blast
qed

theorem load_fallback_once_witness:
  "\<not> is_loaded model_state_mps \<and> device model_state_mps = ''mps''
   \<and> model_path_exists (load_env_pytorch True) \<and> model_path_exists load_env_gguf
   \<and> load_pytorch_model (load_env_pytorch True) ''mps''
       = Some (RuntimeError ''MPS backend out of memory'')
   \<and> load_pytorch_model (load_env_pytorch False) ''mps''
       = Some (RuntimeError ''MPS backend out of memory'')
   \<and> device (fst (load_model (load_env_pytorch True) model_state_mps)) = ''cpu''
   \<and> max_memory_gb (fst (load_model (load_env_pytorch True) model_state_mps)) = 4.8
   \<and> use_conservative_settings (fst (load_model (load_env_pytorch True) model_state_mps))
   \<and> load_calls (fst (load_model (load_env_pytorch True) model_state_mps))
       = [(''pytorch'', ''mps''), (''pytorch'', ''cpu'')]
   \<and> snd (load_model (load_env_pytorch True) model_state_mps) = None
   \<and> is_loaded (fst (load_model (load_env_pytorch True) model_state_mps))
   \<and> load_calls (fst (load_model (load_env_pytorch False) model_state_mps))
       = [(''pytorch'', ''mps''), (''pytorch'', ''cpu'')]
   \<and> snd (load_model (load_env_pytorch False) model_state_mps)
       = Some (RuntimeError
           ''Model loading failed on both MPS and CPU: MPS backend out of memory'')
   \<and> \<not> is_loaded (fst (load_model (load_env_pytorch False) model_state_mps))
   \<and> snd (load_model load_env_gguf model_state_mps)
       = Some (RuntimeError ''failed to load model from file'')
   \<and> device (fst (load_model load_env_gguf model_state_mps)) = ''mps''
   \<and> load_calls (fst (load_model load_env_gguf model_state_mps)) = [(''gguf'', ''mps'')]"
proof -
  have st: "\<not> is_loaded model_state_mps" "device model_state_mps = ''mps''"
    "load_calls model_state_mps = []"
    by (simp_all add: model_state_mps_def)
  have env: "model_path_exists (load_env_pytorch b)"
    "detected_model_type (load_env_pytorch b) = ''pytorch''"
    "load_pytorch_model (load_env_pytorch b) ''mps''
       = Some (RuntimeError ''MPS backend out of memory'')"
    "available_memory_gb (det_system_info (load_env_pytorch b)) = 8"
    "exception_text (load_env_pytorch b) (RuntimeError ''MPS backend out of memory'')
       = ''MPS backend out of memory''" for b
    by (simp_all add: load_env_pytorch_def system_of_def)
  have cpu: "load_pytorch_model (load_env_pytorch True) ''cpu'' = None"
    "load_pytorch_model (load_env_pytorch False) ''cpu'' = Some (RuntimeError ''out of memory'')"
    by (simp_all add: load_env_pytorch_def)
  have g: "model_path_exists load_env_gguf" "detected_model_type load_env_gguf = ''gguf''"
    "llama_cpp_available load_env_gguf"
    "load_gguf_model load_env_gguf ''mps'' = Some (RuntimeError ''failed to load model from file'')"
    by (simp_all add: load_env_gguf_def)
  from load_fallback_once [OF st(1) env(1), where b1 = True
         and e = "RuntimeError ''MPS backend out of memory''"]
       load_fallback_once [OF st(1) env(1), where b1 = False
         and e = "RuntimeError ''MPS backend out of memory''"]
       load_fallback_once [OF st(1) g(1),
         where e = "RuntimeError ''failed to load model from file''"]
  show ?thesis
    using st env cpu g by simp
qed

section \<open>Properties of the string methods\<close>

lemma startswith_prefix: "startswith s p \<longleftrightarrow> prefix p s"
proof
  assume "startswith s p"
  then have "s = p @ drop (length p) s"
    unfolding startswith_def by (metis append_take_drop_id)
  then show "prefix p s" by (metis prefixI)
next
  assume "prefix p s"
  then show "startswith s p" by (auto simp: startswith_def prefix_def)
qed

lemma contains_sublist: "contains s sub \<longleftrightarrow> sublist sub s"
  by (induction s) (auto simp: sublist_Cons_right startswith_prefix)

lemma contains_singleton: "contains s [c] \<longleftrightarrow> c \<in> set s"
  by (induction s) (auto simp: startswith_def)

lemma rev_take_drop:
  "xs = rev (dropWhile P (rev xs)) @ rev (takeWhile P (rev xs))"
proof -
  have "rev (rev xs) = rev (takeWhile P (rev xs) @ dropWhile P (rev xs))"
    by (simp only: takeWhile_dropWhile_id)
  then show ?thesis by (simp only: rev_rev_ident rev_append)
qed

lemma strip_decompose:
  "\<exists>u v. s = u @ strip s @ v \<and> (\<forall>c \<in> set u. is_space c) \<and> (\<forall>c \<in> set v. is_space c)"
proof -
  let ?u = "takeWhile is_space s"
  let ?d = "dropWhile is_space s"
  let ?v = "rev (takeWhile is_space (rev ?d))"
  have d: "?d = strip s @ ?v"
    unfolding strip_def by (rule rev_take_drop)
  have "s = ?u @ ?d" by simp
  with d have "s = ?u @ strip s @ ?v" by simp
  moreover have "\<forall>c \<in> set ?u. is_space c"
    by (auto dest: set_takeWhileD)
  moreover have "\<forall>c \<in> set ?v. is_space c"
    by (auto dest: set_takeWhileD)
  ultimately show ?thesis by blast
qed

lemma strip_ends:
  assumes "strip s \<noteq> []"
  shows "\<not> is_space (hd (strip s))" and "\<not> is_space (last (strip s))"
proof -
  let ?d = "dropWhile is_space s"
  let ?r = "dropWhile is_space (rev ?d)"
  from assms have r: "?r \<noteq> []" by (simp add: strip_def)
  then have "\<not> is_space (hd ?r)" by (rule hd_dropWhile)
  with r show "\<not> is_space (last (strip s))"
    by (simp add: strip_def last_rev)
  have d: "?d \<noteq> []"
  proof
    assume "?d = []"
    with r show False by simp
  qed
  then have nd: "\<not> is_space (hd ?d)" by (rule hd_dropWhile)
  have "?d = strip s @ rev (takeWhile is_space (rev ?d))"
    unfolding strip_def by (rule rev_take_drop)
  with assms have "hd ?d = hd (strip s)" by (metis hd_append2)
  with nd show "\<not> is_space (hd (strip s))" by simp
qed

lemma split_on_nonempty: "split_on c s \<noteq> []"
  by (induction s) (auto split: list.splits)

lemma split_on_join: "concat (map (\<lambda>l. l @ [c]) (split_on c s)) = s @ [c]"
  by (induction s) (auto split: list.splits)

lemma split_on_lines: "l \<in> set (split_on c s) \<Longrightarrow> c \<notin> set l"
  by (induction s arbitrary: l) (auto split: list.splits if_splits)


section \<open>Properties of the generation supervisor\<close>

lemma upt_0_3: "[0..<3] = [0, Suc 0, 2]"
  by (simp add: numeral_3_eq_3 numeral_2_eq_2 upt_rec)

lemma gen_attempts_step:
  "fst (gen_attempts env prompt max_tokens temperature max_attempts calls (k # rest))
       = calls @ [attempt_call max_tokens temperature k]
   \<or> gen_attempts env prompt max_tokens temperature max_attempts calls (k # rest)
       = gen_attempts env prompt max_tokens temperature max_attempts
           (calls @ [attempt_call max_tokens temperature k]) rest"
  by (cases "attempt_result env k (current_temperature temperature k)
               (current_max_tokens max_tokens k)";
      cases "get_memory_info env";
      cases "tokenizer_encode_len env (generate_fallback_response (str_lower env) prompt)")
     (simp_all add: Let_def attempt_call_def)

lemma gen_attempts_calls:
  "\<exists>ys. prefix ys xs
     \<and> fst (gen_attempts env prompt max_tokens temperature max_attempts calls xs)
         = calls @ map (attempt_call max_tokens temperature) ys"
proof (induction xs arbitrary: calls)
  case Nil
  show ?case by simp
next
  case (Cons k rest)
  from gen_attempts_step [of env prompt max_tokens temperature max_attempts calls k rest]
  show ?case
  proof
    assume "fst (gen_attempts env prompt max_tokens temperature max_attempts calls (k # rest))
       = calls @ [attempt_call max_tokens temperature k]"
    then have "prefix [k] (k # rest)
       \<and> fst (gen_attempts env prompt max_tokens temperature max_attempts calls (k # rest))
           = calls @ map (attempt_call max_tokens temperature) [k]"
      by simp
    then show ?thesis by blast
  next
    assume eq: "gen_attempts env prompt max_tokens temperature max_attempts calls (k # rest)
       = gen_attempts env prompt max_tokens temperature max_attempts
           (calls @ [attempt_call max_tokens temperature k]) rest"
    from Cons.IH [of "calls @ [attempt_call max_tokens temperature k]"] obtain ys where
      ys: "prefix ys rest"
        "fst (gen_attempts env prompt max_tokens temperature max_attempts
                (calls @ [attempt_call max_tokens temperature k]) rest)
           = (calls @ [attempt_call max_tokens temperature k])
               @ map (attempt_call max_tokens temperature) ys"
      by blast
    then have "prefix (k # ys) (k # rest)
       \<and> fst (gen_attempts env prompt max_tokens temperature max_attempts calls (k # rest))
           = calls @ map (attempt_call max_tokens temperature) (k # ys)"
      by (simp add: eq del: gen_attempts.simps)
    then show ?thesis by blast
  qed
qed

lemma gen_attempts_retry:
  assumes "attempt_rejected env max_tokens temperature k" and "k < max_attempts - 1"
  shows "gen_attempts env prompt max_tokens temperature max_attempts calls (k # rest)
           = gen_attempts env prompt max_tokens temperature max_attempts
               (calls @ [attempt_call max_tokens temperature k]) rest"
  using assms
  by (cases "attempt_result env k (current_temperature temperature k)
               (current_max_tokens max_tokens k)")
     (simp_all add: attempt_rejected_def attempt_call_def Let_def)

lemma gen_attempts_last_raised:
  assumes "attempt_result env k (current_temperature temperature k)
             (current_max_tokens max_tokens k) = Raised e"
    and "\<not> k < max_attempts - 1"
  shows "gen_attempts env prompt max_tokens temperature max_attempts calls (k # rest)
           = (calls @ [attempt_call max_tokens temperature k], Inl e)"
  using assms by (simp add: Let_def attempt_call_def)

lemma gen_attempts_last_invalid:
  assumes "attempt_result env k (current_temperature temperature k)
             (current_max_tokens max_tokens k) = Generated s n"
    and "\<not> validate_response s" and "\<not> k < max_attempts - 1"
  shows "gen_attempts env prompt max_tokens temperature max_attempts calls (k # rest)
           = (calls @ [attempt_call max_tokens temperature k],
              case tokenizer_encode_len env
                     (generate_fallback_response (str_lower env) prompt) of
                Inl e \<Rightarrow> Inl e
              | Inr c \<Rightarrow>
                  (case get_memory_info env of
                     Inl e \<Rightarrow> Inl e
                   | Inr m \<Rightarrow>
                       Inr (Some \<lparr> response = generate_fallback_response (str_lower env) prompt,
                                   generation_time = elapsed env,
                                   tokens_generated = int c,
                                   tokens_per_second = 0,
                                   memory_usage = m,
                                   attempts = max_attempts,
                                   fallback = Some True \<rparr>)))"
  using assms by (simp add: Let_def attempt_call_def split: sum.splits)

lemma gen_attempts_not_None:
  "\<not> k < max_attempts - 1 \<Longrightarrow>
     snd (gen_attempts env prompt max_tokens temperature max_attempts calls (k # rest))
       \<noteq> Inr None"
  by (simp add: Let_def split: attempt_outcome.splits sum.splits)

lemma gen_attempts_step_not_None:
  assumes "\<And>calls'.
     snd (gen_attempts env prompt max_tokens temperature max_attempts calls' rest) \<noteq> Inr None"
  shows "snd (gen_attempts env prompt max_tokens temperature max_attempts calls (k # rest))
       \<noteq> Inr None"
  using assms by (simp add: Let_def split: attempt_outcome.splits sum.splits)

lemma gen_attempts_3_not_None:
  "snd (gen_attempts env prompt max_tokens temperature 3 calls [0..<3]) \<noteq> Inr None"
  unfolding upt_0_3
  by (intro gen_attempts_step_not_None gen_attempts_not_None) simp

lemma generate_non_stream_loaded:
  "loaded \<or> load_model_result env = None \<Longrightarrow>
     generate_non_stream env loaded prompt max_tokens temperature
       = gen_attempts env prompt max_tokens temperature 3 [] [0..<3]"
  by (auto simp: generate_non_stream_def)

lemma gen_attempts_two_rejected:
  assumes "attempt_rejected env max_tokens temperature 0"
    and "attempt_rejected env max_tokens temperature 1"
  shows "gen_attempts env prompt max_tokens temperature 3 [] [0..<3]
           = gen_attempts env prompt max_tokens temperature 3
               [attempt_call max_tokens temperature 0, attempt_call max_tokens temperature 1] [2]"
proof -
  have "gen_attempts env prompt max_tokens temperature 3 [] [0, Suc 0, 2]
      = gen_attempts env prompt max_tokens temperature 3
          ([] @ [attempt_call max_tokens temperature 0]) [Suc 0, 2]"
    using assms(1) by (intro gen_attempts_retry) simp_all
  also have "\<dots> = gen_attempts env prompt max_tokens temperature 3
          (([] @ [attempt_call max_tokens temperature 0])
             @ [attempt_call max_tokens temperature (Suc 0)]) [2]"
    using assms(2) by (intro gen_attempts_retry) simp_all
  finally show ?thesis by (simp add: upt_0_3)
qed

lemma generate_calls_prefix:
  "prefix (fst (generate_non_stream env loaded prompt max_tokens temperature))
     (map (attempt_call max_tokens temperature) [0, 1, 2])"
proof (cases "loaded \<or> load_model_result env = None")
  case True
  from gen_attempts_calls [of "[0..<3]" env prompt max_tokens temperature 3 "[]"]
  obtain ys where ys: "prefix ys [0..<3]"
    "fst (gen_attempts env prompt max_tokens temperature 3 [] [0..<3])
       = map (attempt_call max_tokens temperature) ys"
    by auto
  from ys(1) have "prefix (map (attempt_call max_tokens temperature) ys)
      (map (attempt_call max_tokens temperature) [0..<3])"
    by (rule map_mono_prefix)
  with ys(2) True show ?thesis
    by (simp add: generate_non_stream_loaded upt_0_3)
next
  case False
  then show ?thesis by (auto simp: generate_non_stream_def)
qed

lemma generate_fallback_rules:
  "generate_fallback_response lower prompt =
     (let users = filter (\<lambda>l. prefix (ustr ''User:'') (strip l)) (split_on 0x0A prompt);
          u = strip (remove_all (ustr ''User:'') (last users))
      in if users = [] then no_user_reply
         else if sublist (ustr ''hello'') (lower u) \<or> sublist (ustr ''hi'') (lower u)
           then greeting_reply
         else if 0x3F \<in> set u then clarifying_reply
         else generic_reply)"
proof -
  have q: "ustr ''?'' = [0x3F]" by (simp add: ustr_def)
  show ?thesis
    unfolding generate_fallback_response_def user_messages_def Let_def
      contains_sublist startswith_prefix q contains_singleton [unfolded contains_sublist]
    by simp
qed


text \<open>
  Claim C3, as stated, fails: when every attempt raises, the exception of the third
  attempt leaves \<open>generate_non_stream\<close>; no fallback response is returned.
\<close>

theorem generate_raises_counterexample:
  "snd (generate_non_stream gen_env_raising True chat_prompt 100 0.7)
     = Inl (RuntimeError ''generation failed'')"
proof -
  have r: "attempt_rejected gen_env_raising 100 0.7 k" for k
    by (simp add: attempt_rejected_def gen_env_raising_def)
  have "snd (gen_attempts gen_env_raising chat_prompt 100 0.7 3
               [attempt_call 100 0.7 0, attempt_call 100 0.7 1] [2])
      = Inl (RuntimeError ''generation failed'')"
    by (subst gen_attempts_last_raised [where e = "RuntimeError ''generation failed''"])
       (simp_all add: gen_env_raising_def)
  then show ?thesis
    by (simp add: generate_non_stream_loaded gen_attempts_two_rejected [OF r r])
qed

text \<open>
  Claim C3, amended. \<open>generate_non_stream\<close> calls the inference runtime at most 3 times,
  for the attempts 0, 1 and 2 in this order with the parameters of each attempt, and
  either returns a result dictionary or raises; it never returns \<open>None\<close>. With the model
  loaded (or its load succeeding) and the first two attempts rejected: when the third
  attempt produces a response that the validator rejects, and counting the tokens of
  the fallback text and reading the memory information succeed, it returns the
  templated fallback with 3 attempts and \<open>fallback = True\<close>; when the third attempt
  raises, that exception is propagated to the caller. An exception of \<open>load_model\<close> is
  propagated as well, before any attempt. The fallback text is chosen from the last
  line of the prompt that, without the whitespace around it, starts with \<open>User:\<close>:
  without such a line a request to say what is needed; otherwise, with every \<open>User:\<close>
  and the whitespace around the rest removed from that line, the greeting reply when
  its lower-cased text has \<open>hello\<close> or \<open>hi\<close> as a substring, else the clarifying reply
  when it has a question mark, else the generic acknowledgement. Here the lines are the
  parts of the prompt between newlines, and stripping removes exactly the whitespace at
  both ends.
\<close>

theorem generate_result_or_raise:
  "snd (generate_non_stream env loaded prompt max_tokens temperature) \<noteq> Inr None
   \<and> prefix (fst (generate_non_stream env loaded prompt max_tokens temperature))
        (map (attempt_call max_tokens temperature) [0, 1, 2])
   \<and> length (fst (generate_non_stream env loaded prompt max_tokens temperature)) \<le> 3
   \<and> ((loaded \<or> load_model_result env = None)
        \<and> attempt_rejected env max_tokens temperature 0
        \<and> attempt_rejected env max_tokens temperature 1
        \<and> attempt_result env 2 (current_temperature temperature 2)
             (current_max_tokens max_tokens 2) = Generated s n
        \<and> \<not> validate_response s
        \<and> tokenizer_encode_len env (generate_fallback_response (str_lower env) prompt) = Inr c
        \<and> get_memory_info env = Inr m
       \<longrightarrow> generate_non_stream env loaded prompt max_tokens temperature
             = (map (attempt_call max_tokens temperature) [0, 1, 2],
                Inr (Some \<lparr> response = generate_fallback_response (str_lower env) prompt,
                            generation_time = elapsed env,
                            tokens_generated = int c,
                            tokens_per_second = 0,
                            memory_usage = m,
                            attempts = 3,
                            fallback = Some True \<rparr>)))
   \<and> ((loaded \<or> load_model_result env = None)
        \<and> attempt_rejected env max_tokens temperature 0
        \<and> attempt_rejected env max_tokens temperature 1
        \<and> attempt_result env 2 (current_temperature temperature 2)
             (current_max_tokens max_tokens 2) = Raised e
       \<longrightarrow> generate_non_stream env loaded prompt max_tokens temperature
             = (map (attempt_call max_tokens temperature) [0, 1, 2], Inl e))
   \<and> (\<not> loaded \<and> load_model_result env = Some e
       \<longrightarrow> generate_non_stream env loaded prompt max_tokens temperature = ([], Inl e))
   \<and> generate_fallback_response lower prompt =
       (let users = filter (\<lambda>l. prefix (ustr ''User:'') (strip l)) (split_on 0x0A prompt);
            u = strip (remove_all (ustr ''User:'') (last users))
        in if users = [] then no_user_reply
           else if sublist (ustr ''hello'') (lower u) \<or> sublist (ustr ''hi'') (lower u)
             then greeting_reply
           else if 0x3F \<in> set u then clarifying_reply
           else generic_reply)
   \<and> concat (map (\<lambda>l. l @ [0x0A]) (split_on 0x0A prompt)) = prompt @ [0x0A]
   \<and> (\<forall>l \<in> set (split_on 0x0A prompt). 0x0A \<notin> set l)
   \<and> (\<exists>u v. x = u @ strip x @ v \<and> (\<forall>c \<in> set u. is_space c) \<and> (\<forall>c \<in> set v. is_space c))
   \<and> (strip x \<noteq> [] \<longrightarrow> \<not> is_space (hd (strip x)) \<and> \<not> is_space (last (strip x)))"
proof -
  have none: "snd (generate_non_stream env loaded prompt max_tokens temperature) \<noteq> Inr None"
    using gen_attempts_3_not_None [of env prompt max_tokens temperature "[]"]
    by (simp add: generate_non_stream_def split: option.splits)
  note pre = generate_calls_prefix [of env loaded prompt max_tokens temperature]
  from pre have len:
    "length (fst (generate_non_stream env loaded prompt max_tokens temperature)) \<le> 3"
    by (auto dest: prefix_length_le)
  have fb: "generate_non_stream env loaded prompt max_tokens temperature
             = (map (attempt_call max_tokens temperature) [0, 1, 2],
                Inr (Some \<lparr> response = generate_fallback_response (str_lower env) prompt,
                            generation_time = elapsed env,
                            tokens_generated = int c,
                            tokens_per_second = 0,
                            memory_usage = m,
                            attempts = 3,
                            fallback = Some True \<rparr>))"
    if "loaded \<or> load_model_result env = None"
      and "attempt_rejected env max_tokens temperature 0"
      and "attempt_rejected env max_tokens temperature 1"
      and "attempt_result env 2 (current_temperature temperature 2)
             (current_max_tokens max_tokens 2) = Generated s n"
      and "\<not> validate_response s"
      and "tokenizer_encode_len env (generate_fallback_response (str_lower env) prompt) = Inr c"
      and "get_memory_info env = Inr m"
  proof -
    have "gen_attempts env prompt max_tokens temperature 3
            [attempt_call max_tokens temperature 0, attempt_call max_tokens temperature 1] [2]
        = ([attempt_call max_tokens temperature 0, attempt_call max_tokens temperature 1]
             @ [attempt_call max_tokens temperature 2],
           case tokenizer_encode_len env
                  (generate_fallback_response (str_lower env) prompt) of
                Inl e \<Rightarrow> Inl e
              | Inr c \<Rightarrow>
                  (case get_memory_info env of
                     Inl e \<Rightarrow> Inl e
                   | Inr m \<Rightarrow>
                       Inr (Some \<lparr> response = generate_fallback_response (str_lower env) prompt,
                                   generation_time = elapsed env,
                                   tokens_generated = int c,
                                   tokens_per_second = 0,
                                   memory_usage = m,
                                   attempts = 3,
                                   fallback = Some True \<rparr>)))"
      using that(4,5) by (intro gen_attempts_last_invalid) simp_all
    with that show ?thesis
      by (simp add: generate_non_stream_loaded gen_attempts_two_rejected)
  qed
  have ex: "generate_non_stream env loaded prompt max_tokens temperature
      = (map (attempt_call max_tokens temperature) [0, 1, 2], Inl e)"
    if "loaded \<or> load_model_result env = None"
      and "attempt_rejected env max_tokens temperature 0"
      and "attempt_rejected env max_tokens temperature 1"
      and "attempt_result env 2 (current_temperature temperature 2)
             (current_max_tokens max_tokens 2) = Raised e"
  proof -
    have "gen_attempts env prompt max_tokens temperature 3
            [attempt_call max_tokens temperature 0, attempt_call max_tokens temperature 1] [2]
        = ([attempt_call max_tokens temperature 0, attempt_call max_tokens temperature 1]
             @ [attempt_call max_tokens temperature 2], Inl e)"
      using that(4) by (intro gen_attempts_last_raised) simp_all
    with that show ?thesis
      by (simp add: generate_non_stream_loaded gen_attempts_two_rejected)
  qed
  have ld: "generate_non_stream env loaded prompt max_tokens temperature = ([], Inl e)"
    if "\<not> loaded \<and> load_model_result env = Some e"
    using that by (simp add: generate_non_stream_def)
  note rules = generate_fallback_rules [of lower prompt]
  note lines = split_on_join [of "0x0A" prompt]
  have nl: "\<forall>l \<in> set (split_on 0x0A prompt). 0x0A \<notin> set l"
    using split_on_lines by blast
  note sd = strip_decompose [of x]
  have se: "strip x \<noteq> [] \<longrightarrow> \<not> is_space (hd (strip x)) \<and> \<not> is_space (last (strip x))"
    using strip_ends [of x] by blast
  from none pre len fb ex ld rules lines nl sd se show ?thesis by blast
qed

lemma chat_prompt_fallback:
  "generate_fallback_response ascii_lower chat_prompt = clarifying_reply"
  unfolding chat_prompt_def by code_simp

lemma empty_rejected: "\<not> validate_response []"
  by (simp add: validate_response_def)

theorem generate_result_or_raise_witness:
  "attempt_rejected gen_env_rejecting 100 0.7 0
   \<and> attempt_rejected gen_env_rejecting 100 0.7 1
   \<and> \<not> validate_response []
   \<and> generate_non_stream gen_env_rejecting True chat_prompt 100 0.7
       = ([(0, 0.7, 100), (1, 0.84, 130), (2, 0.98, 160)],
          Inr (Some \<lparr> response = clarifying_reply, generation_time = 2,
                      tokens_generated = int (length clarifying_reply),
                      tokens_per_second = 0, memory_usage = (),
                      attempts = 3, fallback = Some True \<rparr>))
   \<and> strip (ustr ''  hi  '') = ustr ''hi''"
proof -
  have r: "attempt_rejected gen_env_rejecting 100 0.7 k" for k
    by (simp add: attempt_rejected_def gen_env_rejecting_def empty_rejected)
  have g: "attempt_result gen_env_rejecting 2 (current_temperature 0.7 2)
             (current_max_tokens 100 2) = Generated [] 0"
    "str_lower gen_env_rejecting = ascii_lower"
    "tokenizer_encode_len gen_env_rejecting (generate_fallback_response ascii_lower chat_prompt)
       = Inr (length clarifying_reply)"
    "get_memory_info gen_env_rejecting = Inr ()"
    "elapsed gen_env_rejecting = 2"
    by (simp_all add: gen_env_rejecting_def chat_prompt_fallback)
  have calls: "map (attempt_call 100 0.7) [0, 1, 2] = [(0, 0.7, 100), (1, 0.84, 130), (2, 0.98, 160)]"
    by (simp add: attempt_call_def current_temperature_def current_max_tokens_def)
  have st: "strip (ustr ''  hi  '') = ustr ''hi''"
    by (simp add: strip_def ustr_def is_space_def)
  from generate_result_or_raise [where env = gen_env_rejecting and loaded = True
      and prompt = chat_prompt and max_tokens = 100 and temperature = "0.7" and s = "[]"
      and n = 0 and c = "length clarifying_reply" and m = "()" and lower = ascii_lower
      and x = "ustr ''  hi  ''" and e = "RuntimeError ''generation failed''"]
  show ?thesis
    using r [of 0] r [of 1] g empty_rejected calls st by (simp add: chat_prompt_fallback)
qed

text \<open>
  Claim C5 at a packed (gguf) model, where \<open>self.tokenizer\<close> is the runtime handle and
  has no \<open>encode\<close>: the three attempts produce the empty response, the fallback text is
  computed, and counting its tokens raises inside the \<open>try\<close> of the last attempt, so
  the handler raises again. The caller gets the exception, not a result with
  \<open>fallback = True\<close> and 3 attempts.
\<close>

theorem fallback_token_count_raises:
  "attempt_rejected gen_env_rejecting_gguf 100 0.7 0
   \<and> attempt_rejected gen_env_rejecting_gguf 100 0.7 1
   \<and> attempt_rejected gen_env_rejecting_gguf 100 0.7 2
   \<and> map fst (fst (generate_non_stream gen_env_rejecting_gguf True chat_prompt 100 0.7))
       = [0, 1, 2]
   \<and> snd (generate_non_stream gen_env_rejecting_gguf True chat_prompt 100 0.7)
       = Inl (AttributeError ''encode'')"
proof -
  have r: "attempt_rejected gen_env_rejecting_gguf 100 0.7 k" for k
    by (simp add: attempt_rejected_def gen_env_rejecting_gguf_def gen_env_rejecting_def
          empty_rejected)
  have g: "attempt_result gen_env_rejecting_gguf 2 (current_temperature 0.7 2)
             (current_max_tokens 100 2) = Generated [] 0"
    by (simp add: gen_env_rejecting_gguf_def gen_env_rejecting_def)
  have "gen_attempts gen_env_rejecting_gguf chat_prompt 100 0.7 3
          [attempt_call 100 0.7 0, attempt_call 100 0.7 1] [2]
      = ([attempt_call 100 0.7 0, attempt_call 100 0.7 1] @ [attempt_call 100 0.7 2],
         Inl (AttributeError ''encode''))"
    by (subst gen_attempts_last_invalid [OF g empty_rejected])
       (simp_all add: gen_env_rejecting_gguf_def gen_env_rejecting_def)
  then show ?thesis
    using r
    by (simp add: generate_non_stream_loaded gen_attempts_two_rejected [OF r r]
          attempt_call_def)
qed

end
